theory Spec2Isabelle
  imports Main
begin

section \<open>Python values: exceptions, strings, JSON\<close>

text \<open>
  Every exception the modelled code can meet is a value of \<open>exn\<close>; a computation that
  may raise returns \<open>exn + 'a\<close> with \<open>Inl\<close> for the raised exception. All of them are
  subclasses of Python's \<open>Exception\<close>, so an \<open>except Exception\<close> clause catches each one.
  The aiohttp exceptions are the ones derived from \<open>aiohttp.ClientError\<close>.
\<close>

datatype exn =
    ValueError
  | AttributeError
  | TypeError
  | IndexError
  | UnicodeDecodeError
  | JSONDecodeError
  | RecursionError
  | TimeoutError
  | ClientConnectorError
  | ClientResponseError
  | ClientPayloadError
  | ClientConnectionError
  | ContentTypeError
  | ServerTimeoutError

fun is_ClientError :: "exn \<Rightarrow> bool" where
  "is_ClientError ClientConnectorError = True"
| "is_ClientError ClientResponseError = True"
| "is_ClientError ClientPayloadError = True"
| "is_ClientError ClientConnectionError = True"
| "is_ClientError ContentTypeError = True"
| "is_ClientError ServerTimeoutError = True"
| "is_ClientError _ = False"

text \<open>
  Python \<open>str\<close> methods, on strings as character lists. A character is a code point
  below 256. Among those, \<open>str.isspace\<close> holds for the ASCII whitespace, the four
  separators U+001C to U+001F, the next-line character U+0085 and the no-break space
  U+00A0; these are the characters \<open>strip\<close> removes.
\<close>

definition is_space :: "char \<Rightarrow> bool" where
  "is_space c = ((of_char c :: nat) \<in> {9, 10, 11, 12, 13, 28, 29, 30, 31, 32, 133, 160})"

definition lstrip :: "string \<Rightarrow> string" where
  "lstrip s = dropWhile is_space s"

definition rstrip :: "string \<Rightarrow> string" where
  "rstrip s = rev (dropWhile is_space (rev s))"

definition strip :: "string \<Rightarrow> string" where
  "strip s = rstrip (lstrip s)"

fun join :: "string \<Rightarrow> string list \<Rightarrow> string" where
  "join sep [] = []"
| "join sep [x] = x"
| "join sep (x # y # ys) = x @ sep @ join sep (y # ys)"

text \<open>\<open>sub in s\<close>: substring test.\<close>

fun prefix_of :: "string \<Rightarrow> string \<Rightarrow> bool" where
  "prefix_of [] s = True"
| "prefix_of (p # ps) [] = False"
| "prefix_of (p # ps) (c # cs) = (p = c \<and> prefix_of ps cs)"

fun contains :: "string \<Rightarrow> string \<Rightarrow> bool" where
  "contains sub [] = (sub = [])"
| "contains sub (c # cs) = (prefix_of sub (c # cs) \<or> contains sub cs)"

text \<open>
  \<open>s.split(sep)\<close> for a one-character separator: the pieces between the occurrences
  of \<open>sep\<close>, always at least one piece.
\<close>

fun split_chr :: "char \<Rightarrow> string \<Rightarrow> string list" where
  "split_chr sep [] = [[]]"
| "split_chr sep (c # cs) =
     (if c = sep then [] # split_chr sep cs
      else (case split_chr sep cs of
              [] \<Rightarrow> [[c]]
            | p # ps \<Rightarrow> (c # p) # ps))"

text \<open>
  \<open>s.lower()\<close>: the capital letters below 256 are \<open>A\<close> to \<open>Z\<close> and U+00C0 to U+00DE
  without the multiplication sign U+00D7; each has its small letter 32 places on.
\<close>

definition lower_chr :: "char \<Rightarrow> char" where
  "lower_chr c =
     (let n = (of_char c :: nat)
      in if (65 \<le> n \<and> n \<le> 90) \<or> (192 \<le> n \<and> n \<le> 222 \<and> n \<noteq> 215)
         then char_of (n + 32) else c)"

definition lower :: "string \<Rightarrow> string" where
  "lower s = map lower_chr s"

text \<open>
  \<open>s.upper()\<close>: the small letters \<open>a\<close> to \<open>z\<close> and U+00E0 to U+00FE without the
  division sign U+00F7 have their capital 32 places before. Three more characters
  below 256 change, and not to a single character below 256: the micro sign U+00B5
  gives U+039C, the sharp s U+00DF gives \<open>SS\<close>, and U+00FF gives U+0178. So the result
  is kept as the list of its code points.
\<close>

definition upper_chr :: "char \<Rightarrow> nat list" where
  "upper_chr c =
     (let n = (of_char c :: nat)
      in if (97 \<le> n \<and> n \<le> 122) \<or> (224 \<le> n \<and> n \<le> 254 \<and> n \<noteq> 247) then [n - 32]
         else if n = 181 then [924]
         else if n = 223 then [83, 83]
         else if n = 255 then [376]
         else [n])"

definition upper :: "string \<Rightarrow> nat list" where
  "upper s = concat (map upper_chr s)"

text \<open>
  \<open>s.replace(old, new)\<close> for a non-empty \<open>old\<close>: the occurrences are found from the
  left and do not overlap.
\<close>

fun replace :: "string \<Rightarrow> string \<Rightarrow> string \<Rightarrow> string" where
  "replace old new [] = []"
| "replace old new (c # cs) =
     (if old \<noteq> [] \<and> prefix_of old (c # cs)
      then new @ replace old new (drop (length old) (c # cs))
      else c # replace old new cs)"

text \<open>
  \<open>xs[:n]\<close>: a negative bound counts from the end of the list.
\<close>

definition slice_to :: "'a list \<Rightarrow> int \<Rightarrow> 'a list" where
  "slice_to xs n = (if 0 \<le> n then take (nat n) xs else take (nat (int (length xs) + n)) xs)"

text \<open>
  A decoded JSON document as Python holds it. A \<open>float\<close> is carried as the text Python
  prints for it; an object is the list of its items in insertion order.
\<close>

datatype json =
    JNull
  | JBool bool
  | JInt int
  | JFloat string
  | JStr string
  | JArr "json list"
  | JObj "(string \<times> json) list"

section \<open>Configuration (app/core/config.py)\<close>

datatype SearchProvider = SEARXNG | DUCKDUCKGO | BRAVE

fun provider_value :: "SearchProvider \<Rightarrow> string" where
  "provider_value SEARXNG = ''searxng''"
| "provider_value DUCKDUCKGO = ''duckduckgo''"
| "provider_value BRAVE = ''brave''"

fun provider_name :: "SearchProvider \<Rightarrow> string" where
  "provider_name SEARXNG = ''SEARXNG''"
| "provider_name DUCKDUCKGO = ''DUCKDUCKGO''"
| "provider_name BRAVE = ''BRAVE''"

text \<open>
  \<open>settings.search.provider\<close> is the value of the environment variable
  \<open>SEARCH_PROVIDER\<close>, a plain string, or the enum member \<open>SearchProvider.DUCKDUCKGO\<close>
  when the variable is not set. \<open>SearchProvider\<close> mixes in \<open>str\<close>, so \<open>==\<close> against
  a member compares with the member's value.
\<close>

datatype provider_setting = Member SearchProvider | Raw string

fun provider_eq :: "provider_setting \<Rightarrow> SearchProvider \<Rightarrow> bool" where
  "provider_eq (Member m') m = (m' = m)"
| "provider_eq (Raw s) m = (s = provider_value m)"

text \<open>\<open>str(settings.search.provider)\<close>.\<close>

fun provider_str :: "provider_setting \<Rightarrow> string" where
  "provider_str (Member m) = ''SearchProvider.'' @ provider_name m"
| "provider_str (Raw s) = s"

record SearXNGConfig =
  instance_url :: string
  auth_username :: "string option"
  auth_password :: "string option"
  searxng_timeout :: int
  searxng_max_results :: int

record BraveSearchConfig =
  api_key :: "string option"
  brave_timeout :: int
  brave_max_results :: int

record DuckDuckGoConfig =
  duckduckgo_timeout :: int
  duckduckgo_max_results :: int

record SearchConfig =
  provider :: provider_setting
  search_searxng :: SearXNGConfig
  brave :: BraveSearchConfig
  duckduckgo :: DuckDuckGoConfig

record Settings =
  search :: SearchConfig
  searxng :: SearXNGConfig

section \<open>Provider selector (app/utils/search_client.py)\<close>

text \<open>
  The three client objects with the attributes their constructors set. A Python string
  or \<open>None\<close> is truthy exactly when it is a non-empty string.
\<close>

definition truthy :: "string option \<Rightarrow> bool" where
  "truthy v = (case v of None \<Rightarrow> False | Some s \<Rightarrow> s \<noteq> [])"

datatype search_client =
    SearXNGClient string "(string \<times> string) option"
  | DuckDuckGoClient string int
  | BraveSearchClient string "string option" int

definition new_SearXNGClient :: "Settings \<Rightarrow> search_client" where
  "new_SearXNGClient st =
     SearXNGClient (instance_url (searxng st))
       (if truthy (auth_username (searxng st)) \<and> truthy (auth_password (searxng st))
        then Some (the (auth_username (searxng st)), the (auth_password (searxng st)))
        else None)"

definition new_DuckDuckGoClient :: "Settings \<Rightarrow> search_client" where
  "new_DuckDuckGoClient st =
     DuckDuckGoClient ''https://html.duckduckgo.com/html/'' (duckduckgo_timeout (duckduckgo (search st)))"

definition new_BraveSearchClient :: "Settings \<Rightarrow> search_client" where
  "new_BraveSearchClient st =
     BraveSearchClient ''https://api.search.brave.com/res/v1/web/search''
       (api_key (brave (search st))) (brave_timeout (brave (search st)))"

definition get_client :: "Settings \<Rightarrow> search_client" where
  "get_client st =
     (let p = provider (search st) in
      if provider_eq p SEARXNG then new_SearXNGClient st
      else if provider_eq p DUCKDUCKGO then new_DuckDuckGoClient st
      else if provider_eq p BRAVE then new_BraveSearchClient st
      else new_SearXNGClient st)"

text \<open>Which of the three adapters a client object is.\<close>

fun client_kind :: "search_client \<Rightarrow> SearchProvider" where
  "client_kind (SearXNGClient _ _) = SEARXNG"
| "client_kind (DuckDuckGoClient _ _) = DUCKDUCKGO"
| "client_kind (BraveSearchClient _ _ _) = BRAVE"

text \<open>
  The specification's reading of the configured identifier: it is recognized when it
  names one of the three providers.
\<close>

definition recognized :: "provider_setting \<Rightarrow> SearchProvider option" where
  "recognized p =
     (if p = Raw ''searxng'' \<or> p = Member SEARXNG then Some SEARXNG
      else if p = Raw ''duckduckgo'' \<or> p = Member DUCKDUCKGO then Some DUCKDUCKGO
      else if p = Raw ''brave'' \<or> p = Member BRAVE then Some BRAVE
      else None)"

section \<open>The HTTP exchange the adapters and the fetcher perform\<close>

text \<open>
  One outbound request and what comes back. The network is a function from the request
  to either the exception that \<open>session.get\<close> or \<open>session.post\<close> raises (connection
  refused, timeout, ...) or the response object. The response carries the status, the
  headers, and the outcomes of \<open>await response.text()\<close> and \<open>await response.json()\<close>,
  each of which may raise in its turn.
\<close>

datatype http_method = GET | POST

text \<open>
  A request parameter is a string, an integer, or a text given by its code points (the
  result of \<open>upper\<close>, which may leave the characters below 256).
\<close>

datatype param = PStr string | PInt int | PCodes "nat list"

record request =
  req_method :: http_method
  req_url :: string
  req_params :: "(string \<times> param) list"
  req_data :: "(string \<times> param) list"
  req_headers :: "(string \<times> string) list"
  req_auth :: "(string \<times> string) option"
  req_timeout :: int

record response =
  resp_status :: int
  resp_headers :: "(string \<times> string) list"
  resp_text :: "exn + string"
  resp_json :: "exn + json"

type_synonym network = "request \<Rightarrow> exn + response"

text \<open>The two handlers every adapter wraps around its request.\<close>

definition except_ClientError :: "exn + 'a list \<Rightarrow> exn + 'a list" where
  "except_ClientError m =
     (case m of Inl e \<Rightarrow> if is_ClientError e then Inr [] else Inl e | Inr r \<Rightarrow> Inr r)"

definition except_Exception :: "exn + 'a list \<Rightarrow> exn + 'a list" where
  "except_Exception m = (case m of Inl e \<Rightarrow> Inr [] | Inr r \<Rightarrow> Inr r)"

text \<open>Operations on decoded JSON values, with the exceptions Python raises.\<close>

definition dict_get :: "(string \<times> json) list \<Rightarrow> string \<Rightarrow> json \<Rightarrow> json" where
  "dict_get d k dflt = (case map_of d k of None \<Rightarrow> dflt | Some v \<Rightarrow> v)"

text \<open>\<open>v.get(k, dflt)\<close>: only a dict has the method.\<close>

fun json_get :: "json \<Rightarrow> string \<Rightarrow> json \<Rightarrow> exn + json" where
  "json_get (JObj d) k dflt = Inr (dict_get d k dflt)"
| "json_get _ k dflt = Inl AttributeError"

text \<open>The items a \<open>for\<close> loop over the value visits.\<close>

fun json_iter :: "json \<Rightarrow> exn + json list" where
  "json_iter (JArr xs) = Inr xs"
| "json_iter (JObj d) = Inr (map (\<lambda>kv. JStr (fst kv)) d)"
| "json_iter (JStr s) = Inr (map (\<lambda>c. JStr [c]) s)"
| "json_iter _ = Inl TypeError"

text \<open>
  A search result is the dict \<open>{"title": .., "url": .., "snippet": ..}\<close>, kept as the
  list of its items.
\<close>

type_synonym search_result = "(string \<times> json) list"

text \<open>A loop that appends one normalized result per item, stopping at the first raise.\<close>

fun collect :: "(json \<Rightarrow> exn + search_result) \<Rightarrow> json list \<Rightarrow> exn + search_result list" where
  "collect f [] = Inr []"
| "collect f (x # xs) =
     (case f x of
        Inl e \<Rightarrow> Inl e
      | Inr r \<Rightarrow> (case collect f xs of Inl e \<Rightarrow> Inl e | Inr rs \<Rightarrow> Inr (r # rs)))"

section \<open>SearXNG adapter (app/utils/searx.py)\<close>

definition valid_time_ranges :: "string option list" where
  "valid_time_ranges = [None, Some ''day'', Some ''week'', Some ''month'', Some ''year'']"

definition searxng_params :: "string \<Rightarrow> string \<Rightarrow> string option \<Rightarrow> (string \<times> param) list" where
  "searxng_params query language time_range =
     [(''q'', PStr query), (''format'', PStr ''json''), (''language'', PStr language)]
     @ (if truthy time_range then [(''time_range'', PStr (the time_range))] else [])"

definition searxng_result :: "json \<Rightarrow> exn + search_result" where
  "searxng_result result =
     (case json_get result ''title'' (JStr []) of
        Inl e \<Rightarrow> Inl e
      | Inr t \<Rightarrow>
          (case json_get result ''url'' (JStr []) of
             Inl e \<Rightarrow> Inl e
           | Inr u \<Rightarrow>
               (case json_get result ''content'' (JStr []) of
                  Inl e \<Rightarrow> Inl e
                | Inr c \<Rightarrow> Inr [(''title'', t), (''url'', u), (''snippet'', c)])))"

text \<open>The statements inside \<open>async with session.get(...) as response\<close>.\<close>

definition searxng_response :: "response \<Rightarrow> int \<Rightarrow> exn + search_result list" where
  "searxng_response resp num_results =
     (if resp_status resp \<noteq> 200 then
        (case resp_text resp of Inl e \<Rightarrow> Inl e | Inr error_text \<Rightarrow> Inl ValueError)
      else
        (case resp_json resp of
           Inl e \<Rightarrow> (case resp_text resp of Inl e' \<Rightarrow> Inl e' | Inr error_text \<Rightarrow> Inr [])
         | Inr response_data \<Rightarrow>
             (case json_get response_data ''results'' (JArr []) of
                Inl e \<Rightarrow> Inl e
              | Inr rs \<Rightarrow>
                  (case json_iter rs of
                     Inl e \<Rightarrow> Inl e
                   | Inr items \<Rightarrow>
                       (case collect searxng_result items of
                          Inl e \<Rightarrow> Inl e
                        | Inr results \<Rightarrow> Inr (slice_to results num_results))))))"

definition searxng_search ::
  "Settings \<Rightarrow> network \<Rightarrow> string \<Rightarrow> (string \<times> string) option \<Rightarrow>
   string \<Rightarrow> int option \<Rightarrow> string option \<Rightarrow> string option \<Rightarrow> exn + search_result list" where
  "searxng_search st net url auth query num_results language time_range =
     (let num_results = (case num_results of None \<Rightarrow> searxng_max_results (searxng st) | Some n \<Rightarrow> n);
          language = (case language of None \<Rightarrow> ''en-US'' | Some l \<Rightarrow> l);
          time_range = (if time_range \<notin> set valid_time_ranges then None else time_range);
          params = searxng_params query language time_range;
          req = \<lparr>req_method = GET, req_url = url @ ''/search'', req_params = params,
                 req_data = [], req_headers = [(''Accept'', ''application/json'')],
                 req_auth = auth, req_timeout = searxng_timeout (searxng st)\<rparr>
      in except_Exception
           (except_ClientError
              (case net req of
                 Inl e \<Rightarrow> Inl e
               | Inr resp \<Rightarrow> searxng_response resp num_results)))"

section \<open>Brave adapter (app/utils/brave.py)\<close>

text \<open>\<open>xs[i]\<close> for a non-negative index.\<close>

definition index :: "'a list \<Rightarrow> nat \<Rightarrow> exn + 'a" where
  "index xs i = (if i < length xs then Inr (xs ! i) else Inl IndexError)"

definition extract_country_code :: "string \<Rightarrow> exn + nat list" where
  "extract_country_code language =
     (if contains ''-'' language then
        (case index (split_chr CHR ''-'' language) 1 of
           Inl e \<Rightarrow> Inl e
         | Inr region \<Rightarrow> Inr (upper region))
      else Inr (map of_char ''US''))"

definition brave_time_map :: "(string \<times> string) list" where
  "brave_time_map = [(''day'', ''pd''), (''week'', ''pw''), (''month'', ''pm''), (''year'', ''py'')]"

definition brave_convert_time_range :: "string \<Rightarrow> string" where
  "brave_convert_time_range time_range =
     (case map_of brave_time_map time_range of None \<Rightarrow> [] | Some v \<Rightarrow> v)"

definition brave_result :: "json \<Rightarrow> exn + search_result" where
  "brave_result result =
     (case json_get result ''title'' (JStr []) of
        Inl e \<Rightarrow> Inl e
      | Inr t \<Rightarrow>
          (case json_get result ''url'' (JStr []) of
             Inl e \<Rightarrow> Inl e
           | Inr u \<Rightarrow>
               (case json_get result ''description'' (JStr []) of
                  Inl e \<Rightarrow> Inl e
                | Inr c \<Rightarrow> Inr [(''title'', t), (''url'', u), (''snippet'', c)])))"

definition process_brave_results :: "json \<Rightarrow> exn + search_result list" where
  "process_brave_results response_data =
     (case json_get response_data ''web'' (JObj []) of
        Inl e \<Rightarrow> Inl e
      | Inr web \<Rightarrow>
          (case json_get web ''results'' (JArr []) of
             Inl e \<Rightarrow> Inl e
           | Inr web_results \<Rightarrow>
               (case json_iter web_results of
                  Inl e \<Rightarrow> Inl e
                | Inr items \<Rightarrow> collect brave_result items)))"

definition brave_response :: "response \<Rightarrow> exn + search_result list" where
  "brave_response resp =
     (if resp_status resp \<noteq> 200 then
        (case resp_text resp of Inl e \<Rightarrow> Inl e | Inr error_text \<Rightarrow> Inl ValueError)
      else
        (case resp_json resp of
           Inl e \<Rightarrow> (case resp_text resp of Inl e' \<Rightarrow> Inl e' | Inr error_text \<Rightarrow> Inr [])
         | Inr response_data \<Rightarrow> process_brave_results response_data))"

text \<open>
  The country and freshness parameters are computed before the \<open>try\<close> statement, so an
  exception raised there would leave \<open>search\<close>.
\<close>

definition brave_params ::
  "string \<Rightarrow> int \<Rightarrow> string option \<Rightarrow> string option \<Rightarrow> exn + (string \<times> param) list" where
  "brave_params query num_results language time_range =
     (let params = [(''q'', PStr query), (''count'', PInt num_results)]
      in case (if truthy language
               then (case extract_country_code (the language) of
                       Inl e \<Rightarrow> Inl e
                     | Inr cc \<Rightarrow> Inr (params @ [(''country'', PCodes cc)]))
               else Inr params) of
           Inl e \<Rightarrow> Inl e
         | Inr params \<Rightarrow>
             Inr (if truthy time_range
                  then params @ [(''freshness'', PStr (brave_convert_time_range (the time_range)))]
                  else params))"

definition brave_search ::
  "Settings \<Rightarrow> network \<Rightarrow> string \<Rightarrow> string option \<Rightarrow> int \<Rightarrow>
   string \<Rightarrow> int option \<Rightarrow> string option \<Rightarrow> string option \<Rightarrow> exn + search_result list" where
  "brave_search st net endpoint key tmo query num_results language time_range =
     (if \<not> truthy key then Inr []
      else
        (let num_results = (case num_results of None \<Rightarrow> brave_max_results (brave (search st)) | Some n \<Rightarrow> n)
         in case brave_params query num_results language time_range of
              Inl e \<Rightarrow> Inl e
            | Inr params \<Rightarrow>
                (let req = \<lparr>req_method = GET, req_url = endpoint, req_params = params,
                            req_data = [],
                            req_headers = [(''Accept'', ''application/json''),
                                           (''X-Subscription-Token'', the key)],
                            req_auth = None, req_timeout = tmo\<rparr>
                 in except_Exception
                      (except_ClientError
                         (case net req of
                            Inl e \<Rightarrow> Inl e
                          | Inr resp \<Rightarrow> brave_response resp)))))"

section \<open>DuckDuckGo adapter (app/utils/duckduckgo.py)\<close>

subsection \<open>The three regular expressions\<close>

text \<open>
  \<open>re.findall\<close> and \<open>re.sub\<close> scan the text from the left; where the pattern matches,
  the match is taken and the scan goes on after it, otherwise it moves one character
  on. A matcher gets the text from the current position and returns what it captured
  and how many characters the match covers (never zero for the patterns below). The
  counter of \<open>scan\<close> is the number of characters still covered by the last match.
\<close>

fun scan :: "(string \<Rightarrow> ('g \<times> nat) option) \<Rightarrow> nat \<Rightarrow> string \<Rightarrow> ('g + char) list" where
  "scan m k [] = []"
| "scan m (Suc k) (c # cs) = scan m k cs"
| "scan m 0 (c # cs) =
     (case m (c # cs) of
        Some (g, n) \<Rightarrow> Inl g # scan m (n - 1) cs
      | None \<Rightarrow> Inr c # scan m 0 cs)"

definition findall :: "(string \<Rightarrow> ('g \<times> nat) option) \<Rightarrow> string \<Rightarrow> 'g list" where
  "findall m s = concat (map (\<lambda>x. case x of Inl g \<Rightarrow> [g] | Inr c \<Rightarrow> []) (scan m 0 s))"

definition sub :: "(string \<Rightarrow> ('g \<times> nat) option) \<Rightarrow> string \<Rightarrow> string \<Rightarrow> string" where
  "sub m repl s = concat (map (\<lambda>x. case x of Inl g \<Rightarrow> repl | Inr c \<Rightarrow> [c]) (scan m 0 s))"

text \<open>
  The result anchor: the literal opening, a non-empty run without a double quote (the
  URL), the two characters that close the opening tag, a non-empty run without \<open><\<close>
  (the title), and the closing tag. A greedy run that is followed by a character it
  excludes has nothing to give back, so the match is found without backtracking.
\<close>

definition result_a_open :: string where
  \<open>result_a_open = ''<a rel="nofollow" class="result__a" href="''\<close>

definition match_result_a :: "string \<Rightarrow> ((string \<times> string) \<times> nat) option" where
  \<open>match_result_a s =
     (if \<not> prefix_of result_a_open s then None
      else
        (let r = drop (length result_a_open) s;
             url = takeWhile (\<lambda>c. c \<noteq> CHR ''"'') r;
             r1 = dropWhile (\<lambda>c. c \<noteq> CHR ''"'') r
         in if url = [] \<or> \<not> prefix_of ''">'' r1 then None
            else
              (let r2 = drop 2 r1;
                   title = takeWhile (\<lambda>c. c \<noteq> CHR ''<'') r2;
                   r3 = dropWhile (\<lambda>c. c \<noteq> CHR ''<'') r2
               in if title = [] \<or> \<not> prefix_of ''</a>'' r3 then None
                  else Some ((url, title),
                             length result_a_open + length url + 2 + length title + 4))))\<close>

text \<open>One repetition \<open><[^>]+>[^<]+\<close> of the snippet pattern: the characters it covers.\<close>

definition tag_then_text :: "string \<Rightarrow> nat option" where
  "tag_then_text s =
     (case s of
        [] \<Rightarrow> None
      | c # r \<Rightarrow>
          if c \<noteq> CHR ''<'' then None
          else
            (let inner = takeWhile (\<lambda>c. c \<noteq> CHR ''>'') r;
                 r1 = dropWhile (\<lambda>c. c \<noteq> CHR ''>'') r
             in if inner = [] \<or> r1 = [] then None
                else
                  (let txt = takeWhile (\<lambda>c. c \<noteq> CHR ''<'') (tl r1)
                   in if txt = [] then None
                      else Some (1 + length inner + 1 + length txt))))"

lemma tag_then_text_shorter:
  "tag_then_text s = Some k \<Longrightarrow> length s - k < length s"
  by (cases s) (auto simp: tag_then_text_def Let_def split: if_splits)

text \<open>
  \<open>(?:<[^>]+>[^<]+)*</a>\<close>: the repetition is greedy, and gives repetitions back one
  at a time until the closing tag follows. The result is the number of characters
  covered, closing tag included.
\<close>

function repeat_then_close :: "string \<Rightarrow> nat option" where
  "repeat_then_close s =
     (case tag_then_text s of
        Some k \<Rightarrow>
          (case repeat_then_close (drop k s) of
             Some n \<Rightarrow> Some (k + n)
           | None \<Rightarrow> if prefix_of ''</a>'' s then Some 4 else None)
      | None \<Rightarrow> if prefix_of ''</a>'' s then Some 4 else None)"
  by pat_completeness auto
termination
  by (relation "measure length") (auto simp: tag_then_text_shorter)

definition snippet_open :: string where
  \<open>snippet_open = ''<a class="result__snippet" href="''\<close>

definition match_snippet :: "string \<Rightarrow> (string \<times> nat) option" where
  \<open>match_snippet s =
     (if \<not> prefix_of snippet_open s then None
      else
        (let r = drop (length snippet_open) s;
             href = takeWhile (\<lambda>c. c \<noteq> CHR ''"'') r;
             r1 = dropWhile (\<lambda>c. c \<noteq> CHR ''"'') r
         in if href = [] \<or> \<not> prefix_of ''">'' r1 then None
            else
              (let r2 = drop 2 r1;
                   txt = takeWhile (\<lambda>c. c \<noteq> CHR ''<'') r2;
                   r3 = dropWhile (\<lambda>c. c \<noteq> CHR ''<'') r2
               in if txt = [] then None
                  else
                    (case repeat_then_close r3 of
                       None \<Rightarrow> None
                     | Some n \<Rightarrow>
                         Some (txt @ take (n - 4) r3,
                               length snippet_open + length href + 2 + length txt + n)))))\<close>

text \<open>The tag pattern \<open><[^>]+>\<close> that \<open>re.sub\<close> replaces by a space.\<close>

definition match_tag :: "string \<Rightarrow> (unit \<times> nat) option" where
  "match_tag s =
     (case s of
        [] \<Rightarrow> None
      | c # r \<Rightarrow>
          if c \<noteq> CHR ''<'' then None
          else
            (let inner = takeWhile (\<lambda>c. c \<noteq> CHR ''>'') r;
                 r1 = dropWhile (\<lambda>c. c \<noteq> CHR ''>'') r
             in if inner = [] \<or> r1 = [] then None else Some ((), length inner + 2)))"

subsection \<open>Parsing the result page\<close>

definition entities :: "(string \<times> string) list" where
  \<open>entities = [(''&quot;'', ''"''), (''&amp;'', ''&''), (''&lt;'', ''<''), (''&gt;'', ''>''),
               (''&#x27;'', [CHR 0x27])]\<close>

definition replace_entities :: "string \<Rightarrow> string" where
  "replace_entities s = fold (\<lambda>ec t. replace (fst ec) (snd ec) t) entities s"

text \<open>
  The loop over \<open>enumerate(title_matches)\<close>: \<open>i\<close> is the index of the match at the head
  of the list.
\<close>

fun result_records :: "nat \<Rightarrow> (string \<times> string) list \<Rightarrow> string list \<Rightarrow> search_result list" where
  "result_records i [] snippet_matches = []"
| "result_records i ((url, title) # title_matches) snippet_matches =
     (let snippet = (if i < length snippet_matches
                     then sub match_tag '' '' (snippet_matches ! i) else []);
          title = strip title;
          snippet = strip snippet;
          title = replace_entities title;
          snippet = replace_entities snippet
      in [(''title'', JStr title), (''url'', JStr url), (''snippet'', JStr snippet)]
         # result_records (Suc i) title_matches snippet_matches)"

text \<open>
  The body of \<open>_parse_html_results\<close>. None of its statements can raise on a string,
  so the handler that would return the empty list is never entered.
\<close>

definition parse_html_results :: "string \<Rightarrow> search_result list" where
  "parse_html_results html_content =
     (let title_matches = findall match_result_a html_content;
          snippet_matches = findall match_snippet html_content
      in result_records 0 title_matches snippet_matches)"

subsection \<open>The search call\<close>

definition language_map :: "(string \<times> string) list" where
  "language_map =
     [(''en-US'', ''us-en''), (''en-GB'', ''uk-en''), (''en-CA'', ''ca-en''), (''fr-FR'', ''fr-fr''),
      (''de-DE'', ''de-de''), (''es-ES'', ''es-es''), (''it-IT'', ''it-it''), (''ja-JP'', ''jp-jp'')]"

definition convert_language :: "string \<Rightarrow> string" where
  "convert_language language =
     (case map_of language_map language of None \<Rightarrow> ''wt-wt'' | Some v \<Rightarrow> v)"

definition duckduckgo_time_map :: "(string \<times> string) list" where
  "duckduckgo_time_map = [(''day'', ''d''), (''week'', ''w''), (''month'', ''m''), (''year'', ''y'')]"

definition duckduckgo_convert_time_range :: "string \<Rightarrow> string" where
  "duckduckgo_convert_time_range time_range =
     (case map_of duckduckgo_time_map time_range of None \<Rightarrow> [] | Some v \<Rightarrow> v)"

definition duckduckgo_response :: "response \<Rightarrow> int \<Rightarrow> exn + search_result list" where
  "duckduckgo_response resp num_results =
     (if resp_status resp \<noteq> 200 then
        (case resp_text resp of Inl e \<Rightarrow> Inl e | Inr error_text \<Rightarrow> Inl ValueError)
      else
        (case resp_text resp of
           Inl e \<Rightarrow> Inl e
         | Inr html_content \<Rightarrow> Inr (slice_to (parse_html_results html_content) num_results)))"

definition duckduckgo_search ::
  "Settings \<Rightarrow> network \<Rightarrow> string \<Rightarrow> int \<Rightarrow>
   string \<Rightarrow> int option \<Rightarrow> string option \<Rightarrow> string option \<Rightarrow> exn + search_result list" where
  "duckduckgo_search st net url tmo query num_results language time_range =
     (let num_results = (case num_results of
                           None \<Rightarrow> duckduckgo_max_results (duckduckgo (search st))
                         | Some n \<Rightarrow> n);
          params = [(''q'', PStr query),
                    (''kl'', PStr (if truthy language then convert_language (the language)
                                   else ''wt-wt''))];
          params = (if truthy time_range
                    then params @ [(''df'', PStr (duckduckgo_convert_time_range (the time_range)))]
                    else params);
          req = \<lparr>req_method = POST, req_url = url, req_params = [], req_data = params,
                 req_headers =
                   [(''User-Agent'', ''Mozilla/5.0 (Windows NT 10.0; Win64; x64) AppleWebKit/537.36 (KHTML, like Gecko) Chrome/91.0.4472.124 Safari/537.36''),
                    (''Accept'', ''text/html,application/xhtml+xml,application/xml'')],
                 req_auth = None, req_timeout = tmo\<rparr>
      in except_Exception
           (except_ClientError
              (case net req of
                 Inl e \<Rightarrow> Inl e
               | Inr resp \<Rightarrow> duckduckgo_response resp num_results)))"

section \<open>The search operation (app/api/search.py)\<close>

text \<open>\<open>search_client.search(...)\<close>: the method of whichever client the selector returned.\<close>

fun client_search ::
  "Settings \<Rightarrow> network \<Rightarrow> search_client \<Rightarrow>
   string \<Rightarrow> int option \<Rightarrow> string option \<Rightarrow> string option \<Rightarrow> exn + search_result list" where
  "client_search st net (SearXNGClient url auth) q n l t = searxng_search st net url auth q n l t"
| "client_search st net (DuckDuckGoClient url tmo) q n l t = duckduckgo_search st net url tmo q n l t"
| "client_search st net (BraveSearchClient endpoint key tmo) q n l t =
     brave_search st net endpoint key tmo q n l t"

text \<open>Decimal digits of a number, as \<open>str\<close> prints them.\<close>

fun str_nat :: "nat \<Rightarrow> string" where
  "str_nat n =
     (if n < 10 then [''0123456789'' ! n]
      else str_nat (n div 10) @ [''0123456789'' ! (n mod 10)])"

definition str_int :: "int \<Rightarrow> string" where
  "str_int i = (if i < 0 then CHR ''-'' # str_nat (nat (- i)) else str_nat (nat i))"

text \<open>
  \<open>str(v)\<close> as an f-string inserts it. What Python prints for a list or a dict (the
  \<open>repr\<close> of its items) is left to the parameter \<open>render\<close>.
\<close>

fun py_str :: "(json \<Rightarrow> string) \<Rightarrow> json \<Rightarrow> string" where
  "py_str render (JStr s) = s"
| "py_str render JNull = ''None''"
| "py_str render (JBool b) = (if b then ''True'' else ''False'')"
| "py_str render (JInt i) = str_int i"
| "py_str render (JFloat s) = s"
| "py_str render v = render v"

fun markdown_entries :: "(json \<Rightarrow> string) \<Rightarrow> nat \<Rightarrow> search_result list \<Rightarrow> string" where
  "markdown_entries render i [] = []"
| "markdown_entries render i (result # results) =
     ''## '' @ str_nat i @ ''. '' @ py_str render (dict_get result ''title'' (JStr ''No Title''))
       @ ''\<newline>\<newline>''
     @ ''**URL**: '' @ py_str render (dict_get result ''url'' (JStr ''No URL'')) @ ''\<newline>\<newline>''
     @ py_str render (dict_get result ''snippet'' (JStr ''No description available.''))
       @ ''\<newline>\<newline>''
     @ ''---\<newline>\<newline>''
     @ markdown_entries render (Suc i) results"

definition format_results_as_markdown :: "(json \<Rightarrow> string) \<Rightarrow> search_result list \<Rightarrow> string" where
  "format_results_as_markdown render results =
     (if results = [] then ''No results found.''
      else ''# Search Results\<newline>\<newline>'' @ markdown_entries render 1 results)"

datatype OutputFormat = json_format | markdown_format

text \<open>
  What the endpoint hands back: a dict (sent as a JSON object), a string, or the
  \<open>HTTPException\<close> with status 500 of its \<open>except\<close> clause.
\<close>

datatype reply = Dict "(string \<times> json) list" | Str string | HTTPException int

definition search_endpoint ::
  "Settings \<Rightarrow> network \<Rightarrow> (json \<Rightarrow> string) \<Rightarrow>
   string \<Rightarrow> OutputFormat \<Rightarrow> int \<Rightarrow> string \<Rightarrow> string option \<Rightarrow> reply" where
  "search_endpoint st net render q fmt max_results language time_range =
     (case client_search st net (get_client st) q (Some max_results) (Some language) time_range of
        Inl e \<Rightarrow> HTTPException 500
      | Inr results \<Rightarrow>
          if results = [] then
            (if fmt = markdown_format then Str ''No search results found.''
             else Dict [(''results'', JArr []), (''query'', JStr q)])
          else if fmt = markdown_format then Str (format_results_as_markdown render results)
          else Dict [(''results'', JArr (map JObj results)),
                     (''query'', JStr q),
                     (''provider'', JStr (provider_str (provider (search st))))])"

section \<open>Concrete settings, networks and pages\<close>

definition example_searxng :: SearXNGConfig where
  "example_searxng =
     \<lparr>instance_url = ''https://searx.be'', auth_username = None, auth_password = None,
      searxng_timeout = 10, searxng_max_results = 10\<rparr>"

definition example_settings :: "provider_setting \<Rightarrow> Settings" where
  "example_settings p =
     \<lparr>search = \<lparr>provider = p, search_searxng = example_searxng,
                 brave = \<lparr>api_key = Some ''token'', brave_timeout = 10, brave_max_results = 10\<rparr>,
                 duckduckgo = \<lparr>duckduckgo_timeout = 10, duckduckgo_max_results = 10\<rparr>\<rparr>,
      searxng = example_searxng\<rparr>"

definition unreachable :: network where
  "unreachable req = Inl ClientConnectorError"

definition answers :: "int \<Rightarrow> exn + string \<Rightarrow> exn + json \<Rightarrow> network" where
  "answers code body decoded req =
     Inr \<lparr>resp_status = code, resp_headers = [], resp_text = body, resp_json = decoded\<rparr>"

definition two_hits :: json where
  "two_hits =
     JObj [(''web'', JObj [(''results'',
       JArr [JObj [(''title'', JStr ''A''), (''url'', JStr ''u1''), (''description'', JStr ''d1'')],
             JObj [(''title'', JStr ''B''), (''url'', JStr ''u2''), (''description'', JStr ''d2'')]])])]"

definition result_page :: string where
  \<open>result_page =
     ''<div><a rel="nofollow" class="result__a" href="//x.org/a">Tom &amp; Jerry </a>''
     @ ''<a class="result__snippet" href="//x.org/a">A <b>cat</b> and a mouse</a></div>''
     @ ''<div><a rel="nofollow" class="result__a" href="//y.org">Second</a></div>''\<close>


text \<open>
  When a backend's answer cannot be parsed: for the two JSON adapters the body fails to
  decode, or decodes to something that is not an object; for the DuckDuckGo adapter the
  text cannot be decoded, or no result anchor is found in it.
\<close>

fun is_dict :: "json \<Rightarrow> bool" where
  "is_dict (JObj d) = True"
| "is_dict _ = False"

definition not_a_json_object :: "response \<Rightarrow> bool" where
  "not_a_json_object resp = (case resp_json resp of Inl e \<Rightarrow> True | Inr v \<Rightarrow> \<not> is_dict v)"

fun unparseable :: "search_client \<Rightarrow> response \<Rightarrow> bool" where
  "unparseable (SearXNGClient url auth) resp = not_a_json_object resp"
| "unparseable (BraveSearchClient endpoint key tmo) resp = not_a_json_object resp"
| "unparseable (DuckDuckGoClient url tmo) resp =
     (case resp_text resp of Inl e \<Rightarrow> True | Inr html \<Rightarrow> findall match_result_a html = [])"

section \<open>The parsed document (app/utils/html_parser.py)\<close>

text \<open>
  The tree BeautifulSoup builds: a tag with its name, its attributes and its contents,
  a text string, or a comment (which stands for every special string that
  \<open>get_text\<close> leaves out). The document itself is the tag named \<open>[document]\<close>.
\<close>

datatype node =
    Tag string "(string \<times> string) list" "node list"
  | NavigableString string
  | Comment string

text \<open>
  \<open>tag.find_all(names)\<close>: the descendants whose name is one of \<open>names\<close>, in document
  order. \<open>matching\<close> also counts the node itself.
\<close>

fun matching :: "string list \<Rightarrow> node \<Rightarrow> node list" where
  "matching names (Tag name attrs contents) =
     (if name \<in> set names then [Tag name attrs contents] else [])
     @ concat (map (matching names) contents)"
| "matching names (NavigableString s) = []"
| "matching names (Comment s) = []"

fun find_all :: "string list \<Rightarrow> node \<Rightarrow> node list" where
  "find_all names (Tag name attrs contents) = concat (map (matching names) contents)"
| "find_all names (NavigableString s) = []"
| "find_all names (Comment s) = []"

text \<open>\<open>tag.find(name)\<close>: the first of them, or \<open>None\<close>.\<close>

definition find_first :: "string \<Rightarrow> node \<Rightarrow> node option" where
  "find_first name n = (case find_all [name] n of [] \<Rightarrow> None | x # xs \<Rightarrow> Some x)"

fun get_text :: "node \<Rightarrow> string" where
  "get_text (Tag name attrs contents) = concat (map get_text contents)"
| "get_text (NavigableString s) = s"
| "get_text (Comment s) = []"

text \<open>
  \<open>tag.string\<close>: the single string below a chain of only children, \<open>None\<close> when a tag
  on the way has no child or several.
\<close>

fun string_of :: "node \<Rightarrow> string option" where
  "string_of (Tag name attrs contents) = (case contents of [c] \<Rightarrow> string_of c | _ \<Rightarrow> None)"
| "string_of (NavigableString s) = Some s"
| "string_of (Comment s) = Some s"

text \<open>
  \<open>a == b\<close> on nodes: two tags are equal when they have the same name, the same
  attributes and pairwise equal contents; strings are compared as text.
\<close>

fun node_eq :: "node \<Rightarrow> node \<Rightarrow> bool" where
  "node_eq (Tag name attrs contents) (Tag name' attrs' contents') =
     (name = name' \<and> set attrs = set attrs' \<and> list_all2 node_eq contents contents')"
| "node_eq (Tag name attrs contents) _ = False"
| "node_eq _ (Tag name attrs contents) = False"
| "node_eq (NavigableString s) (NavigableString s') = (s = s')"
| "node_eq (NavigableString s) (Comment s') = (s = s')"
| "node_eq (Comment s) (NavigableString s') = (s = s')"
| "node_eq (Comment s) (Comment s') = (s = s')"

subsection \<open>Title extraction\<close>

text \<open>
  A tag is truthy whatever it contains, so \<open>if soup.title\<close> asks whether a title tag
  exists. \<open>soup.title.string\<close> may be \<open>None\<close>, and \<open>None.strip()\<close> raises.
\<close>

definition extract_title :: "node \<Rightarrow> exn + string" where
  "extract_title soup =
     (case find_first ''title'' soup of
        Some title \<Rightarrow>
          (case string_of title of
             None \<Rightarrow> Inl AttributeError
           | Some s \<Rightarrow> Inr (strip s))
      | None \<Rightarrow>
          (case find_first ''h1'' soup of
             Some h1 \<Rightarrow> Inr (strip (get_text h1))
           | None \<Rightarrow> Inr ''No title found''))"

subsection \<open>Table conversion\<close>

definition cell_texts :: "string list \<Rightarrow> node \<Rightarrow> string list" where
  "cell_texts names row = map (\<lambda>cell. strip (get_text cell)) (find_all names row)"

definition table_headers :: "node \<Rightarrow> string list" where
  "table_headers table =
     (case find_first ''thead'' table of
        Some header_row \<Rightarrow> cell_texts [''th''] header_row
      | None \<Rightarrow>
          (case find_first ''tr'' table of
             Some first_row \<Rightarrow> cell_texts [''th'', ''td''] first_row
           | None \<Rightarrow> []))"

definition row_line :: "string list \<Rightarrow> string" where
  "row_line cells = ''| '' @ join '' | '' cells @ '' |''"

definition header_lines :: "string list \<Rightarrow> string list" where
  "header_lines headers =
     (if headers \<noteq> [] then [row_line headers, row_line (map (\<lambda>h. ''---'') headers)] else [])"

text \<open>
  The test that makes the row loop \<open>continue\<close>:
  \<open>tr == header_row or (not header_row and tr == table.find('tr') and any(tr.find_all('th')))\<close>.
\<close>

definition skip_row :: "node \<Rightarrow> node \<Rightarrow> bool" where
  "skip_row table tr =
     ((case find_first ''thead'' table of None \<Rightarrow> False | Some header_row \<Rightarrow> node_eq tr header_row)
      \<or> (find_first ''thead'' table = None
          \<and> (case find_first ''tr'' table of None \<Rightarrow> False | Some first_row \<Rightarrow> node_eq tr first_row)
          \<and> find_all [''th''] tr \<noteq> []))"

fun body_lines :: "node \<Rightarrow> node list \<Rightarrow> string list" where
  "body_lines table [] = []"
| "body_lines table (tr # trs) =
     (if skip_row table tr then body_lines table trs
      else
        (let row_data = cell_texts [''td'', ''th''] tr
         in (if row_data \<noteq> [] then [row_line row_data] else []) @ body_lines table trs))"

text \<open>The body line of one row, none when the row has no cell.\<close>

definition row_lines :: "node \<Rightarrow> string list" where
  "row_lines tr =
     (if cell_texts [''td'', ''th''] tr \<noteq> [] then [row_line (cell_texts [''td'', ''th''] tr)] else [])"

definition markdown_table :: "node \<Rightarrow> string list" where
  "markdown_table table =
     header_lines (table_headers table) @ body_lines table (find_all [''tr''] table)"

text \<open>
  The loop over \<open>soup.find_all('table')\<close>. A table with a non-empty \<open>markdown_table\<close> is
  replaced by the parse of a \<open>div\<close> holding the lines; the tables inside it leave the
  document with it. A table with an empty one stays, and the tables inside it are
  visited in their turn. \<open>parse\<close> is BeautifulSoup's parser.
\<close>

fun replace_tables :: "(string \<Rightarrow> node) \<Rightarrow> node \<Rightarrow> node" where
  "replace_tables parse (Tag name attrs contents) =
     (if name = ''table'' \<and> markdown_table (Tag name attrs contents) \<noteq> []
      then parse (''<div>'' @ join ''\<newline>'' (markdown_table (Tag name attrs contents)) @ ''</div>'')
      else Tag name attrs (map (replace_tables parse) contents))"
| "replace_tables parse (NavigableString s) = NavigableString s"
| "replace_tables parse (Comment s) = Comment s"

text \<open>\<open>_convert_tables\<close> on the content region, before the tree is printed.\<close>

fun convert_tables :: "(string \<Rightarrow> node) \<Rightarrow> node \<Rightarrow> node" where
  "convert_tables parse (Tag name attrs contents) =
     Tag name attrs (map (replace_tables parse) contents)"
| "convert_tables parse (NavigableString s) = NavigableString s"
| "convert_tables parse (Comment s) = Comment s"

text \<open>Some documents and tables.\<close>

definition untitled_page :: node where
  "untitled_page =
     Tag ''[document]'' []
       [Tag ''html'' []
          [Tag ''head'' [] [Tag ''title'' [] []],
           Tag ''body'' [] [Tag ''h1'' [] [NavigableString ''Welcome'']]]]"

definition plain_table :: node where
  "plain_table =
     Tag ''table'' []
       [Tag ''tr'' [] [Tag ''td'' [] [NavigableString ''Name'']],
        Tag ''tr'' [] [Tag ''td'' [] [NavigableString ''Ada'']]]"

definition headed_table :: node where
  "headed_table =
     Tag ''table'' []
       [Tag ''tr'' [] [Tag ''th'' [] [NavigableString ''Name''], Tag ''td'' [] [NavigableString ''Born'']],
        Tag ''tr'' [] [Tag ''td'' [] [NavigableString ''Ada''], Tag ''td'' [] [NavigableString ''1815'']]]"

definition rowless_table :: node where
  "rowless_table =
     Tag ''table'' [(''class'', ''layout'')]
       [Tag ''caption'' [] [NavigableString ''Prices''],
        Tag ''td'' [] [NavigableString ''12'']]"

section \<open>Fetcher (app/utils/web_fetcher.py)\<close>

definition MAX_CONTENT_SIZE :: int where
  "MAX_CONTENT_SIZE = 10 * 1024 * 1024"

definition TEXT_CONTENT_TYPES :: "string list" where
  "TEXT_CONTENT_TYPES =
     [''text/html'', ''text/plain'', ''application/json'', ''application/xml'', ''text/xml'',
      ''application/javascript'', ''text/css'', ''text/markdown'', ''application/x-yaml'',
      ''text/yaml'']"

text \<open>\<open>response.headers.get(name)\<close>: header names are matched without regard to case.\<close>

definition header_get :: "(string \<times> string) list \<Rightarrow> string \<Rightarrow> string option" where
  "header_get hs name = map_of (map (\<lambda>h. (lower (fst h), snd h)) hs) (lower name)"

text \<open>
  \<open>int(s)\<close> on a string: padding on both sides, an optional sign, then decimal digits
  with single underscores allowed between them; anything else raises \<open>ValueError\<close>.
  The padding \<open>int\<close> accepts is the whitespace of C (tab to carriage return, and the
  space) and the whitespace beyond ASCII (U+0085 and U+00A0 below 256), but not the
  separators U+001C to U+001F. CPython also raises \<open>ValueError\<close> when there are more
  digits than \<open>sys.int_max_str_digits\<close>, 4300 unless configured otherwise; underscores,
  sign and padding are not counted.
\<close>

definition int_padding :: "char \<Rightarrow> bool" where
  "int_padding c = ((of_char c :: nat) \<in> {9, 10, 11, 12, 13, 32, 133, 160})"

definition int_max_str_digits :: nat where
  "int_max_str_digits = 4300"

definition is_digit :: "char \<Rightarrow> bool" where
  "is_digit c = (48 \<le> (of_char c :: nat) \<and> (of_char c :: nat) \<le> 57)"

fun digits_ok :: "string \<Rightarrow> bool" where
  "digits_ok [] = False"
| "digits_ok [c] = is_digit c"
| "digits_ok (c # d # r) =
     (is_digit c \<and> (if d = CHR ''_'' then digits_ok r else digits_ok (d # r)))"

definition digits_value :: "string \<Rightarrow> int" where
  "digits_value s = foldl (\<lambda>acc c. 10 * acc + (of_char c - 48)) 0 (filter is_digit s)"

definition py_int :: "string \<Rightarrow> exn + int" where
  "py_int s =
     (let t = rev (dropWhile int_padding (rev (dropWhile int_padding s)));
          signed = (t \<noteq> [] \<and> (hd t = CHR ''-'' \<or> hd t = CHR ''+''));
          body = (if signed then tl t else t)
      in if digits_ok body \<and> length (filter is_digit body) \<le> int_max_str_digits
         then Inr (if signed \<and> hd t = CHR ''-'' then - digits_value body
                   else digits_value body)
         else Inl ValueError)"

text \<open>
  \<open>content_length and int(content_length) > MAX_CONTENT_SIZE\<close>: the conversion is only
  attempted on a header that is present and not empty.
\<close>

definition too_large :: "string option \<Rightarrow> exn + bool" where
  "too_large content_length =
     (if \<not> truthy content_length then Inr False
      else (case py_int (the content_length) of
              Inl e \<Rightarrow> Inl e
            | Inr n \<Rightarrow> Inr (n > MAX_CONTENT_SIZE)))"

text \<open>The statements inside \<open>async with session.get(...) as response\<close>.\<close>

definition fetch_response :: "response \<Rightarrow> exn + (string \<times> string) option" where
  "fetch_response resp =
     (if resp_status resp \<noteq> 200 then Inr None
      else
        (case split_chr CHR '';''
                (case header_get (resp_headers resp) ''Content-Type'' of None \<Rightarrow> [] | Some v \<Rightarrow> v) of
           [] \<Rightarrow> Inl IndexError
         | first # pieces \<Rightarrow>
             (let content_type = lower first;
                  content_length = header_get (resp_headers resp) ''Content-Length''
              in case too_large content_length of
                   Inl e \<Rightarrow> Inl e
                 | Inr True \<Rightarrow>
                     Inr (Some (''Content too large to process (size: '' @ the content_length
                                  @ '' bytes, max: '' @ str_int MAX_CONTENT_SIZE @ '' bytes)'',
                                ''text/plain''))
                 | Inr False \<Rightarrow>
                     if list_ex (\<lambda>text_type. contains text_type content_type) TEXT_CONTENT_TYPES
                     then
                       (case resp_text resp of
                          Inr content \<Rightarrow> Inr (Some (content, content_type))
                        | Inl e \<Rightarrow>
                            if e = UnicodeDecodeError
                            then Inr (Some (''Failed to decode content as text (content-type: ''
                                              @ content_type @ '')'',
                                            ''text/plain''))
                            else Inl e)
                     else
                       Inr (Some (''Binary content type detected: '' @ content_type
                                    @ ''. This content type is not supported for processing.'',
                                  ''text/plain'')))))"

text \<open>
  The inner \<open>except\<close> clauses name five aiohttp exceptions (their subclasses included),
  the outer one catches every other exception; each of them returns \<open>None\<close>.
\<close>

definition except_aiohttp :: "exn + 'a option \<Rightarrow> exn + 'a option" where
  "except_aiohttp m =
     (case m of
        Inl e \<Rightarrow>
          if e \<in> {ClientResponseError, ContentTypeError, ClientConnectorError, ClientPayloadError,
                   ClientConnectionError, ServerTimeoutError}
          then Inr None else Inl e
      | Inr r \<Rightarrow> Inr r)"

definition except_Exception_None :: "exn + 'a option \<Rightarrow> 'a option" where
  "except_Exception_None m = (case m of Inl e \<Rightarrow> None | Inr r \<Rightarrow> r)"

definition fetch_request :: "string \<Rightarrow> int \<Rightarrow> request" where
  "fetch_request url tmo =
     \<lparr>req_method = GET, req_url = url, req_params = [], req_data = [],
      req_headers =
        [(''User-Agent'', ''Mozilla/5.0 (Windows NT 10.0; Win64; x64) AppleWebKit/537.36 (KHTML, like Gecko) Chrome/120.0.0.0 Safari/537.36''),
         (''Accept'', ''text/html,application/xhtml+xml,application/xml;q=0.9,image/webp,*/*;q=0.8''),
         (''Accept-Language'', ''en-US,en;q=0.5''),
         (''Accept-Encoding'', ''gzip, deflate, br''),
         (''DNT'', ''1''),
         (''Connection'', ''keep-alive''),
         (''Upgrade-Insecure-Requests'', ''1'')],
      req_auth = None, req_timeout = tmo\<rparr>"

text \<open>
  \<open>urlparse\<close> is the standard library's; it gives the scheme and the network location
  of the URL. An URL that lacks one of them raises \<open>ValueError\<close> before the \<open>try\<close>.
\<close>

definition fetch_url ::
  "(string \<Rightarrow> string \<times> string) \<Rightarrow> network \<Rightarrow> string \<Rightarrow> int \<Rightarrow> exn + (string \<times> string) option" where
  "fetch_url urlparse net url tmo =
     (if fst (urlparse url) = [] \<or> snd (urlparse url) = [] then Inl ValueError
      else
        Inr (except_Exception_None
               (except_aiohttp
                  (case net (fetch_request url tmo) of
                     Inl e \<Rightarrow> Inl e
                   | Inr resp \<Rightarrow> fetch_response resp))))"

text \<open>A server that announces twenty mebibytes of HTML.\<close>

definition big_page :: response where
  "big_page =
     \<lparr>resp_status = 200,
      resp_headers = [(''content-type'', ''text/html; charset=utf-8''), (''content-length'', ''20971520'')],
      resp_text = Inr ''<html>...</html>'',
      resp_json = Inl ContentTypeError\<rparr>"

section \<open>Non-HTML extractor (app/api/read.py)\<close>

record document =
  doc_title :: string
  doc_url :: string
  doc_content :: string

text \<open>The first line that is not blank, stripped; the placeholder when there is none.\<close>

fun first_nonblank :: "string list \<Rightarrow> string" where
  "first_nonblank [] = ''Text Document''"
| "first_nonblank (line # lines) = (if strip line \<noteq> [] then strip line else first_nonblank lines)"

text \<open>The loop over the fields \<open>title\<close>, \<open>name\<close>, \<open>id\<close>, \<open>key\<close> of a top-level object.\<close>

fun first_field :: "(string \<times> json) list \<Rightarrow> string list \<Rightarrow> json option" where
  "first_field d [] = None"
| "first_field d (field # rest) =
     (case map_of d field of Some v \<Rightarrow> Some v | None \<Rightarrow> first_field d rest)"

definition json_title :: "(json \<Rightarrow> string) \<Rightarrow> json \<Rightarrow> string" where
  "json_title render json_data =
     (case json_data of
        JObj d \<Rightarrow>
          (case first_field d [''title'', ''name'', ''id'', ''key''] of
             Some v \<Rightarrow> ''JSON: '' @ py_str render v
           | None \<Rightarrow> ''JSON Document'')
      | _ \<Rightarrow> ''JSON Document'')"

text \<open>
  \<open>loads\<close> and \<open>dumps\<close> are \<open>json.loads\<close> and \<open>json.dumps(_, indent=2)\<close> of the standard
  library. Only \<open>json.JSONDecodeError\<close> is caught.
\<close>

definition extract_text_content ::
  "(string \<Rightarrow> exn + json) \<Rightarrow> (json \<Rightarrow> string) \<Rightarrow> (json \<Rightarrow> string) \<Rightarrow>
   string \<Rightarrow> string \<Rightarrow> string \<Rightarrow> exn + document" where
  "extract_text_content loads dumps render content content_type url =
     (if contains ''text/plain'' content_type then
        Inr \<lparr>doc_title = first_nonblank (split_chr CHR ''\<newline>'' content),
             doc_url = url, doc_content = content\<rparr>
      else if contains ''application/json'' content_type then
        (case loads content of
           Inr json_data \<Rightarrow>
             Inr \<lparr>doc_title = json_title render json_data, doc_url = url,
                  doc_content = ''```json\<newline>'' @ dumps json_data @ ''\<newline>```''\<rparr>
         | Inl e \<Rightarrow>
             if e = JSONDecodeError
             then Inr \<lparr>doc_title = ''Invalid JSON Document'', doc_url = url, doc_content = content\<rparr>
             else Inl e)
      else
        Inr \<lparr>doc_title = ''Document ('' @ content_type @ '')'', doc_url = url,
             doc_content =
               ''Content type '' @ [CHR 0x27] @ content_type @ [CHR 0x27]
               @ '' not fully supported. Raw content:\<newline>\<newline>```\<newline>''
               @ take 5000 content @ ''\<newline>```\<newline>\<newline>(Content may be truncated)''\<rparr>)"

text \<open>A stand-in for the JSON library that knows one document.\<close>

definition example_loads :: "string \<Rightarrow> exn + json" where
  \<open>example_loads s =
     (if s = ''{"title":"X"}'' then Inr (JObj [(''title'', JStr ''X'')]) else Inl JSONDecodeError)\<close>

definition example_dumps :: "json \<Rightarrow> string" where
  \<open>example_dumps v = ''{\<newline>  "title": "X"\<newline>}''\<close>

text \<open>
  Two payloads on which CPython's \<open>json.loads\<close> gives up with an exception that is not
  a \<open>JSONDecodeError\<close>: a hundred thousand opening brackets exhaust the recursion limit
  of the decoder (\<open>RecursionError\<close>), and a number of five thousand digits is more than
  \<open>int\<close> converts (a plain \<open>ValueError\<close>). The stand-in for the library answers them
  that way.
\<close>

definition nested_payload :: string where
  "nested_payload = replicate 100000 CHR ''[''"

definition long_number :: string where
  "long_number = replicate 5000 CHR ''1''"

definition limited_loads :: "string \<Rightarrow> exn + json" where
  "limited_loads s =
     (if s = nested_payload then Inl RecursionError
      else if s = long_number then Inl ValueError
      else example_loads s)"

section \<open>Results about the selector\<close>

lemma provider_eq_recognized:
  "provider_eq p m \<longleftrightarrow> recognized p = Some m"
  by (cases p; cases m) (auto simp: recognized_def)

text \<open>
  Claim C8. For every configured provider identifier the selector returns the SearXNG,
  DuckDuckGo or Brave client when the identifier names that provider, and the SearXNG
  client for every identifier that names none of the three; it is a total function, so
  no identifier makes it fail.
\<close>

theorem get_client_selects:
  "client_kind (get_client st) =
     (case recognized (provider (search st)) of Some m \<Rightarrow> m | None \<Rightarrow> SEARXNG)"
proof (cases "recognized (provider (search st))")
  case None
  then have "\<not> provider_eq (provider (search st)) m" for m
    by (simp add: provider_eq_recognized)
  with None show ?thesis
    by (simp add: get_client_def new_SearXNGClient_def)
next
  case (Some m)
  then have eq: "provider_eq (provider (search st)) m' \<longleftrightarrow> m' = m" for m'
    by (auto simp: provider_eq_recognized)
  from Some show ?thesis
    by (cases m)
       (simp_all add: get_client_def eq new_SearXNGClient_def new_DuckDuckGoClient_def
          new_BraveSearchClient_def)
qed

section \<open>Results about the search adapters\<close>

lemma split_chr_nonempty: "split_chr c s \<noteq> []"
  by (induction s) (auto split: list.splits)

lemma contains_split_chr: "contains [c] s \<Longrightarrow> 2 \<le> length (split_chr c s)"
proof (induction s)
  case Nil
  then show ?case by simp
next
  case (Cons x xs)
  show ?case
  proof (cases "x = c")
    case True
    then show ?thesis
      using split_chr_nonempty [of c xs] by (cases "split_chr c xs") auto
  next
    case False
    with Cons show ?thesis
      by (auto split: list.splits)
  qed
qed

lemma extract_country_code_returns: "\<exists>cc. extract_country_code language = Inr cc"
proof (cases "contains ''-'' language")
  case True
  then have "1 < length (split_chr CHR ''-'' language)"
    using contains_split_chr [of "CHR ''-''" language] by simp
  with True show ?thesis
    by (simp add: extract_country_code_def index_def)
next
  case False
  then show ?thesis by (simp add: extract_country_code_def)
qed

text \<open>The region of \<open>fr-FR\<close> is \<open>FR\<close>; a tag without a hyphen gives \<open>US\<close>.\<close>

lemma extract_country_code_examples:
  "extract_country_code ''fr-FR'' = Inr (map of_char ''FR'')"
  "extract_country_code ''fr'' = Inr (map of_char ''US'')"
  by code_simp+

lemma brave_params_returns: "\<exists>ps. brave_params q n l t = Inr ps"
  using extract_country_code_returns [of "the l"]
  by (auto simp: brave_params_def Let_def)

lemma handlers_return: "\<exists>rs. except_Exception (except_ClientError m) = Inr rs"
  by (cases m) (auto simp: except_Exception_def except_ClientError_def)

lemma handlers_raise: "except_Exception (except_ClientError (Inl e)) = Inr []"
  by (simp add: except_Exception_def except_ClientError_def)

lemma handlers_value: "except_Exception (except_ClientError (Inr rs)) = Inr rs"
  by (simp add: except_Exception_def except_ClientError_def)

lemma searxng_search_returns: "\<exists>rs. searxng_search st net url auth q n l t = Inr rs"
  by (simp add: searxng_search_def Let_def handlers_return)

lemma duckduckgo_search_returns: "\<exists>rs. duckduckgo_search st net url tmo q n l t = Inr rs"
  by (simp add: duckduckgo_search_def Let_def handlers_return)

lemma brave_search_returns: "\<exists>rs. brave_search st net ep key tmo q n l t = Inr rs"
  using brave_params_returns [of q "case n of None \<Rightarrow> brave_max_results (brave (search st)) | Some n \<Rightarrow> n" l t]
  by (auto simp: brave_search_def Let_def handlers_return)

lemma json_get_not_dict: "\<not> is_dict v \<Longrightarrow> json_get v k dflt = Inl AttributeError"
  by (cases v) simp_all

lemma searxng_response_fails:
  "resp_status resp \<noteq> 200 \<or> not_a_json_object resp \<Longrightarrow>
   except_Exception (except_ClientError (searxng_response resp n)) = Inr []"
  by (auto simp: searxng_response_def not_a_json_object_def handlers_raise handlers_value
      json_get_not_dict split: sum.splits)

lemma brave_response_fails:
  "resp_status resp \<noteq> 200 \<or> not_a_json_object resp \<Longrightarrow>
   except_Exception (except_ClientError (brave_response resp)) = Inr []"
  by (auto simp: brave_response_def process_brave_results_def not_a_json_object_def
      handlers_raise handlers_value json_get_not_dict split: sum.splits)

lemma slice_to_Nil: "slice_to [] n = []"
  by (simp add: slice_to_def)

lemma duckduckgo_response_fails:
  "resp_status resp \<noteq> 200 \<or> (case resp_text resp of Inl e \<Rightarrow> True | Inr html \<Rightarrow> findall match_result_a html = []) \<Longrightarrow>
   except_Exception (except_ClientError (duckduckgo_response resp n)) = Inr []"
  by (auto simp: duckduckgo_response_def handlers_raise handlers_value parse_html_results_def
      slice_to_Nil Let_def split: sum.splits)

lemma request_fails:
  assumes "\<forall>req. \<exists>resp. net req = Inr resp \<and> P resp"
    and "\<And>resp. P resp \<Longrightarrow> except_Exception (except_ClientError (f resp)) = Inr []"
  shows "except_Exception (except_ClientError (case net req of Inl e \<Rightarrow> Inl e | Inr resp \<Rightarrow> f resp)) = Inr []"
proof -
  from assms(1) obtain resp where "net req = Inr resp" and "P resp"
    by blast
  with assms(2) show ?thesis
    by simp
qed

lemma client_search_fails:
  assumes "\<forall>req. \<exists>resp. net req = Inr resp \<and> P resp"
    and "\<And>resp. P resp \<Longrightarrow> resp_status resp \<noteq> 200 \<or> unparseable c resp"
  shows "client_search st net c q n l t = Inr []"
proof (cases c)
  case (SearXNGClient url auth)
  with assms(2) have "P resp \<Longrightarrow> except_Exception (except_ClientError (searxng_response resp k)) = Inr []"
    for resp k
    using searxng_response_fails [of resp k] by auto
  with SearXNGClient show ?thesis
    by (simp add: searxng_search_def Let_def request_fails [OF assms(1)])
next
  case (DuckDuckGoClient url tmo)
  with assms(2) have "P resp \<Longrightarrow> except_Exception (except_ClientError (duckduckgo_response resp k)) = Inr []"
    for resp k
    using duckduckgo_response_fails [of resp k] by auto
  with DuckDuckGoClient show ?thesis
    by (simp add: duckduckgo_search_def Let_def request_fails [OF assms(1)])
next
  case (BraveSearchClient ep key tmo)
  with assms(2) have "P resp \<Longrightarrow> except_Exception (except_ClientError (brave_response resp)) = Inr []"
    for resp
    using brave_response_fails [of resp] by auto
  with BraveSearchClient show ?thesis
    using brave_params_returns [of q "case n of None \<Rightarrow> brave_max_results (brave (search st)) | Some n \<Rightarrow> n" l t]
    by (auto simp: brave_search_def Let_def request_fails [OF assms(1)])
qed

text \<open>
  Claim C1. For every query, count, language and time range, for each of the three
  adapters and whatever the network does, \<open>search\<close> returns a list and raises
  nothing. When the endpoint is unreachable (every request raises), when the backend
  answers with a status other than 200, and when its answer cannot be parsed, the list
  is empty.
\<close>

theorem adapters_never_raise:
  "(\<exists>results. client_search st net c q n l t = Inr results)
   \<and> ((\<forall>req. isl (net req)) \<longrightarrow> client_search st net c q n l t = Inr [])
   \<and> ((\<forall>req. \<exists>resp. net req = Inr resp \<and> resp_status resp \<noteq> 200)
        \<longrightarrow> client_search st net c q n l t = Inr [])
   \<and> ((\<forall>req. \<exists>resp. net req = Inr resp \<and> resp_status resp = 200 \<and> unparseable c resp)
        \<longrightarrow> client_search st net c q n l t = Inr [])"
proof (intro conjI impI)
  show "\<exists>results. client_search st net c q n l t = Inr results"
    by (cases c) (simp_all add: searxng_search_returns duckduckgo_search_returns brave_search_returns)
next
  assume down: "\<forall>req. isl (net req)"
  have "except_Exception (except_ClientError (case net req of Inl e \<Rightarrow> Inl e | Inr resp \<Rightarrow> f resp)) = Inr []"
    for req and f :: "response \<Rightarrow> exn + search_result list"
    using down [rule_format, of req] by (cases "net req") (simp_all add: handlers_raise)
  then show "client_search st net c q n l t = Inr []"
    using brave_params_returns [of q "case n of None \<Rightarrow> brave_max_results (brave (search st)) | Some n \<Rightarrow> n" l t]
    by (cases c) (auto simp: searxng_search_def duckduckgo_search_def brave_search_def Let_def)
next
  assume "\<forall>req. \<exists>resp. net req = Inr resp \<and> resp_status resp \<noteq> 200"
  then show "client_search st net c q n l t = Inr []"
    by (rule client_search_fails) simp
next
  assume "\<forall>req. \<exists>resp. net req = Inr resp \<and> resp_status resp = 200 \<and> unparseable c resp"
  then show "client_search st net c q n l t = Inr []"
    by (rule client_search_fails) simp
qed

text \<open>
  The situations at concrete inputs: SearXNG behind a refused connection, Brave
  answering 503, DuckDuckGo sending a body that cannot be decoded, SearXNG sending a
  page that is not JSON.
\<close>

theorem adapters_never_raise_witness:
  "client_search (example_settings (Raw ''searxng'')) unreachable
       (get_client (example_settings (Raw ''searxng''))) ''isabelle'' (Some 5) (Some ''en-US'') None = Inr []
   \<and> client_search (example_settings (Raw ''brave'')) (answers 503 (Inr ''busy'') (Inl ContentTypeError))
       (get_client (example_settings (Raw ''brave''))) ''isabelle'' (Some 5) (Some ''en-US'') None = Inr []
   \<and> client_search (example_settings (Raw ''duckduckgo'')) (answers 200 (Inl UnicodeDecodeError) (Inl JSONDecodeError))
       (get_client (example_settings (Raw ''duckduckgo''))) ''isabelle'' (Some 5) (Some ''en-US'') None = Inr []
   \<and> client_search (example_settings (Raw ''searxng'')) (answers 200 (Inr ''<html>'') (Inl JSONDecodeError))
       (get_client (example_settings (Raw ''searxng''))) ''isabelle'' (Some 5) (Some ''en-US'') None = Inr []"
proof -
  have down: "\<forall>req. isl (unreachable req)"
    by (simp add: unreachable_def)
  have busy: "\<forall>req. \<exists>resp. answers 503 (Inr ''busy'') (Inl ContentTypeError) req = Inr resp \<and> resp_status resp \<noteq> 200"
    by (simp add: answers_def)
  have ddg: "get_client (example_settings (Raw ''duckduckgo'')) = DuckDuckGoClient ''https://html.duckduckgo.com/html/'' 10"
    by (simp add: get_client_def example_settings_def new_DuckDuckGoClient_def)
  have garbled: "\<forall>req. \<exists>resp. answers 200 (Inl UnicodeDecodeError) (Inl JSONDecodeError) req = Inr resp
      \<and> resp_status resp = 200 \<and> unparseable (get_client (example_settings (Raw ''duckduckgo''))) resp"
    by (simp add: answers_def ddg)
  have searx: "get_client (example_settings (Raw ''searxng'')) = SearXNGClient ''https://searx.be'' None"
    by (simp add: get_client_def example_settings_def new_SearXNGClient_def example_searxng_def truthy_def)
  have not_json: "\<forall>req. \<exists>resp. answers 200 (Inr ''<html>'') (Inl JSONDecodeError) req = Inr resp
      \<and> resp_status resp = 200 \<and> unparseable (get_client (example_settings (Raw ''searxng''))) resp"
    by (simp add: answers_def searx not_a_json_object_def)
  show ?thesis
    using adapters_never_raise [of "example_settings (Raw ''searxng'')" unreachable
        "get_client (example_settings (Raw ''searxng''))" "''isabelle''" "Some 5" "Some ''en-US''" None]
      adapters_never_raise [of "example_settings (Raw ''brave'')" "answers 503 (Inr ''busy'') (Inl ContentTypeError)"
        "get_client (example_settings (Raw ''brave''))" "''isabelle''" "Some 5" "Some ''en-US''" None]
      adapters_never_raise [of "example_settings (Raw ''duckduckgo'')" "answers 200 (Inl UnicodeDecodeError) (Inl JSONDecodeError)"
        "get_client (example_settings (Raw ''duckduckgo''))" "''isabelle''" "Some 5" "Some ''en-US''" None]
      adapters_never_raise [of "example_settings (Raw ''searxng'')" "answers 200 (Inr ''<html>'') (Inl JSONDecodeError)"
        "get_client (example_settings (Raw ''searxng''))" "''isabelle''" "Some 5" "Some ''en-US''" None]
      down busy garbled not_json
    by blast
qed

text \<open>
  The SearXNG and DuckDuckGo adapters cut the list they built to the requested count.
\<close>

lemma slice_to_length: "0 \<le> n \<Longrightarrow> length (slice_to xs n) \<le> nat n"
  by (simp add: slice_to_def)

lemma searxng_search_at_most:
  assumes "0 \<le> n" and "searxng_search st net url auth q (Some n) l t = Inr rs"
  shows "length rs \<le> nat n"
proof -
  have "searxng_response resp n = Inr xs \<Longrightarrow> length xs \<le> nat n" for resp xs
    using slice_to_length [OF assms(1)]
    by (auto simp: searxng_response_def split: if_splits sum.splits)
  with assms(2) show ?thesis
    by (auto simp: searxng_search_def Let_def except_Exception_def except_ClientError_def
        split: sum.splits if_splits)
qed

lemma duckduckgo_search_at_most:
  assumes "0 \<le> n" and "duckduckgo_search st net url tmo q (Some n) l t = Inr rs"
  shows "length rs \<le> nat n"
proof -
  have "duckduckgo_response resp n = Inr xs \<Longrightarrow> length xs \<le> nat n" for resp xs
    using slice_to_length [OF assms(1)]
    by (auto simp: duckduckgo_response_def split: if_splits sum.splits)
  with assms(2) show ?thesis
    by (auto simp: duckduckgo_search_def Let_def except_Exception_def except_ClientError_def
        split: sum.splits if_splits)
qed

text \<open>
  Claim C6. Each adapter returns at most the requested number of results. The Brave
  adapter sends the count to the backend and returns every result of the answer: asked
  for one result, with an answer that lists two, it returns both.
\<close>

theorem brave_exceeds_count:
  "client_search (example_settings (Raw ''brave'')) (answers 200 (Inr []) (Inr two_hits))
     (get_client (example_settings (Raw ''brave''))) ''isabelle'' (Some 1) (Some ''en-US'') None
   = Inr [[(''title'', JStr ''A''), (''url'', JStr ''u1''), (''snippet'', JStr ''d1'')],
          [(''title'', JStr ''B''), (''url'', JStr ''u2''), (''snippet'', JStr ''d2'')]]"
  by code_simp

text \<open>The two json replies of the endpoint, side by side.\<close>

lemma json_reply_with_results:
  assumes "client_search st net (get_client st) q (Some k) (Some l) t = Inr rs" and "rs \<noteq> []"
  shows "search_endpoint st net render q json_format k l t =
           Dict [(''results'', JArr (map JObj rs)), (''query'', JStr q),
                 (''provider'', JStr (provider_str (provider (search st))))]"
  using assms by (simp add: search_endpoint_def)

lemma json_reply_without_results:
  assumes "client_search st net (get_client st) q (Some k) (Some l) t = Inr []"
  shows "search_endpoint st net render q json_format k l t =
           Dict [(''results'', JArr []), (''query'', JStr q)]"
  using assms by (simp add: search_endpoint_def)

text \<open>
  Claim C9. In json mode the reply holds the result list, the query and the provider
  name. When the adapter returns no result (here: the endpoint is unreachable), the
  reply is the dict of the early return, with the keys \<open>results\<close> and \<open>query\<close> only.
\<close>

theorem empty_json_reply_without_provider:
  "search_endpoint (example_settings (Raw ''searxng'')) unreachable (\<lambda>v. []) ''isabelle'' json_format 5 ''en-US'' None
   = Dict [(''results'', JArr []), (''query'', JStr ''isabelle'')]"
  by code_simp

section \<open>Results about the DuckDuckGo result parser\<close>

lemma strip_Nil: "strip [] = []"
  by (simp add: strip_def lstrip_def rstrip_def)

lemma replace_entities_Nil: "replace_entities [] = []"
  by (simp add: replace_entities_def entities_def)

lemma result_records_length: "length (result_records i tm sm) = length tm"
  by (induction tm arbitrary: i) (auto simp: Let_def)

lemma result_records_nth:
  "j < length tm \<Longrightarrow>
   result_records i tm sm ! j =
     [(''title'', JStr (replace_entities (strip (snd (tm ! j))))),
      (''url'', JStr (fst (tm ! j))),
      (''snippet'', JStr (replace_entities (strip
          (if i + j < length sm then sub match_tag '' '' (sm ! (i + j)) else []))))]"
proof (induction tm arbitrary: i j)
  case Nil
  then show ?case by simp
next
  case (Cons m tm)
  obtain url title where m: "m = (url, title)"
    by (cases m)
  show ?case
  proof (cases j)
    case 0
    with m show ?thesis by (simp add: Let_def)
  next
    case (Suc k)
    with Cons.prems have "k < length tm" by simp
    from Cons.IH [OF this, of "Suc i"] Suc m show ?thesis
      by (simp add: Let_def)
  qed
qed

text \<open>
  Claim C10. For every HTML input the parser returns one record per matched result
  anchor, in the order of the anchors. Each record is the dict with exactly the keys
  \<open>title\<close>, \<open>url\<close> and \<open>snippet\<close>, all three holding strings, the URL being the
  anchor's. A record whose index is not below the number of matched snippet spans has
  the empty string as its snippet.
\<close>

theorem parse_html_results_records:
  "length (parse_html_results html) = length (findall match_result_a html)
   \<and> (\<forall>i < length (findall match_result_a html).
        \<exists>title snippet.
          parse_html_results html ! i =
            [(''title'', JStr title),
             (''url'', JStr (fst (findall match_result_a html ! i))),
             (''snippet'', JStr snippet)]
          \<and> (length (findall match_snippet html) \<le> i \<longrightarrow> snippet = []))"
  by (simp add: parse_html_results_def Let_def result_records_length result_records_nth
      strip_Nil replace_entities_Nil)

text \<open>A page with two result anchors and one snippet span.\<close>

theorem parse_html_results_records_witness:
  "length (findall match_result_a result_page) = 2
   \<and> length (findall match_snippet result_page) = 1
   \<and> length (parse_html_results result_page) = 2
   \<and> (\<exists>title. parse_html_results result_page ! 1 =
         [(''title'', JStr title), (''url'', JStr ''//y.org''), (''snippet'', JStr [])])"
proof -
  have anchors: "findall match_result_a result_page =
      [(''//x.org/a'', ''Tom &amp; Jerry ''), (''//y.org'', ''Second'')]"
    by code_simp
  have spans: "findall match_snippet result_page = [''A <b>cat</b> and a mouse'']"
    by code_simp
  note records = parse_html_results_records [of result_page]
  from records anchors have len: "length (parse_html_results result_page) = 2"
    by simp
  from records anchors spans obtain title snippet where
    "parse_html_results result_page ! 1 =
       [(''title'', JStr title), (''url'', JStr ''//y.org''), (''snippet'', JStr snippet)]"
    and "snippet = []"
    by fastforce
  with len anchors spans show ?thesis
    by simp
qed

section \<open>Results about the table converter and the title\<close>

lemma find_first_None: "find_first name n = None \<longleftrightarrow> find_all [name] n = []"
  by (simp add: find_first_def split: list.splits)

lemma find_first_Some: "find_first name n = Some x \<longleftrightarrow> (\<exists>xs. find_all [name] n = x # xs)"
  by (simp add: find_first_def split: list.splits)

text \<open>
  Claim C2. A table that has no \<open>thead\<close> containing \<open>th\<close> cells and no \<open>tr\<close> gives no
  Markdown line at all, so the converter does not replace it: it stays in the document
  as the table it was, and no pipe-delimited line stands for it.
\<close>

theorem table_without_header_skipped:
  assumes "table = Tag ''table'' attrs contents"
    and "case find_first ''thead'' table of None \<Rightarrow> True | Some thead \<Rightarrow> find_all [''th''] thead = []"
    and "find_first ''tr'' table = None"
  shows "markdown_table table = []
    \<and> replace_tables parse table = Tag ''table'' attrs (map (replace_tables parse) contents)"
proof -
  from assms(2,3) have "table_headers table = []"
    by (simp add: table_headers_def cell_texts_def split: option.splits)
  moreover from assms(3) have "find_all [''tr''] table = []"
    by (simp add: find_first_None)
  ultimately have "markdown_table table = []"
    by (simp add: markdown_table_def header_lines_def)
  with assms(1) show ?thesis
    by simp
qed

text \<open>A table made of a caption and a stray cell.\<close>

theorem table_without_header_skipped_witness:
  "markdown_table rowless_table = []
   \<and> replace_tables NavigableString rowless_table = rowless_table"
proof -
  have shape: "rowless_table = Tag ''table'' [(''class'', ''layout'')]
       [Tag ''caption'' [] [NavigableString ''Prices''], Tag ''td'' [] [NavigableString ''12'']]"
    by (simp add: rowless_table_def)
  have no_thead: "find_first ''thead'' rowless_table = None"
    by (simp add: rowless_table_def find_first_def)
  have no_tr: "find_first ''tr'' rowless_table = None"
    by (simp add: rowless_table_def find_first_def)
  from table_without_header_skipped [OF shape _ no_tr, of NavigableString] no_thead
  have "markdown_table rowless_table = []
    \<and> replace_tables NavigableString rowless_table = Tag ''table'' [(''class'', ''layout'')]
       (map (replace_tables NavigableString)
          [Tag ''caption'' [] [NavigableString ''Prices''], Tag ''td'' [] [NavigableString ''12'']])"
    by simp
  then show ?thesis
    by (simp add: rowless_table_def)
qed

text \<open>
  A table with a \<open>thead\<close> that holds no \<open>th\<close> is outside that claim as soon as it has
  rows: it gets no header line, and its rows are still emitted.
\<close>

lemma thead_without_th_rows_emitted:
  "markdown_table
     (Tag ''table'' []
        [Tag ''thead'' [] [Tag ''tr'' [] [Tag ''td'' [] [NavigableString ''Name'']]],
         Tag ''tbody'' [] [Tag ''tr'' [] [Tag ''td'' [] [NavigableString ''Ada'']]]])
   = [''| Name |'', ''| Ada |'']"
  by code_simp

text \<open>Equal nodes have equal descendants, so they hold cells of a kind together.\<close>

lemma node_eq_refl: "node_eq n n"
  by (induction n) (auto simp: list.rel_refl_strong)

lemma list_all2_concat_map:
  "list_all2 (\<lambda>a b. list_all2 P (f a) (f b)) xs ys \<Longrightarrow>
   list_all2 P (concat (map f xs)) (concat (map f ys))"
  by (induction xs ys rule: list_all2_induct) (auto intro: list_all2_appendI)

lemma node_eq_matching:
  "node_eq a b \<Longrightarrow> list_all2 node_eq (matching names a) (matching names b)"
proof (induction a b rule: node_eq.induct)
  case (1 name attrs contents name' attrs' contents')
  then have eq: "name = name'" and kids: "list_all2 node_eq contents contents'"
    by simp_all
  from kids 1 have "list_all2 (\<lambda>a b. list_all2 node_eq (matching names a) (matching names b)) contents contents'"
    by (auto simp: list_all2_conv_all_nth in_set_zip intro!: "1.IH")
  then have "list_all2 node_eq (concat (map (matching names) contents)) (concat (map (matching names) contents'))"
    by (rule list_all2_concat_map)
  with eq 1 show ?case
    by (auto intro: list_all2_appendI)
qed simp_all


lemma node_eq_find_all:
  "node_eq a b \<Longrightarrow> list_all2 node_eq (find_all names a) (find_all names b)"
proof (cases a; cases b)
  fix name attrs contents name' attrs' contents'
  assume a: "a = Tag name attrs contents" and b: "b = Tag name' attrs' contents'"
    and eq: "node_eq a b"
  then have "list_all2 node_eq contents contents'"
    by simp
  then have "list_all2 (\<lambda>x y. list_all2 node_eq (matching names x) (matching names y)) contents contents'"
    by (rule list_all2_mono) (rule node_eq_matching)
  then show ?thesis
    using a b by (simp add: list_all2_concat_map)
qed simp_all

lemma node_eq_has_cells:
  "node_eq a b \<Longrightarrow> find_all names a = [] \<longleftrightarrow> find_all names b = []"
  using node_eq_find_all [of a b names] by (auto dest: list_all2_lengthD)

lemma matching_mono:
  "set names \<subseteq> set names' \<Longrightarrow> set (matching names n) \<subseteq> set (matching names' n)"
  by (induction n) auto

lemma find_all_mono:
  "set names \<subseteq> set names' \<Longrightarrow> set (find_all names n) \<subseteq> set (find_all names' n)"
  using matching_mono [of names names'] by (cases n) auto

lemma skip_row_first:
  assumes "find_first ''thead'' table = None"
    and "find_first ''tr'' table = Some r"
    and "find_all [''th''] r \<noteq> []"
  shows "skip_row table tr \<longleftrightarrow> node_eq tr r"
  using assms node_eq_has_cells [of tr r "[''th'']"]
  by (auto simp: skip_row_def)

lemma skip_row_never:
  assumes "find_first ''thead'' table = None"
    and "find_first ''tr'' table = Some r"
    and "find_all [''th''] r = []"
  shows "\<not> skip_row table tr"
  using assms node_eq_has_cells [of tr r "[''th'']"]
  by (auto simp: skip_row_def)

lemma body_lines_skipping:
  assumes "\<And>tr. skip_row table tr \<longleftrightarrow> node_eq tr r"
  shows "body_lines table trs = concat (map row_lines (filter (\<lambda>tr. \<not> node_eq tr r) trs))"
  by (induction trs) (simp_all add: assms Let_def row_lines_def)

lemma body_lines_keeping:
  assumes "\<And>tr. \<not> skip_row table tr"
  shows "body_lines table trs = concat (map row_lines trs)"
  by (induction trs) (simp_all add: assms Let_def row_lines_def)

text \<open>
  Claim C3, as the code has it. For a table without \<open>thead\<close> the header line is made
  of the \<open>th\<close> and \<open>td\<close> cells of the first \<open>tr\<close>. When that row holds at least one
  \<open>th\<close>, it is consumed: the header line and the separator are followed by the lines of
  the other rows only, and a row equal to the first one gives no line either. When it
  holds no \<open>th\<close>, no row is skipped, and the first row is emitted again as a body row.
\<close>

theorem first_row_as_header:
  assumes "find_first ''thead'' table = None"
    and "find_all [''tr''] table = r # rest"
  shows "(find_all [''th''] r \<noteq> [] \<longrightarrow>
            markdown_table table =
              row_line (cell_texts [''th'', ''td''] r)
              # row_line (map (\<lambda>h. ''---'') (cell_texts [''th'', ''td''] r))
              # concat (map row_lines (filter (\<lambda>tr. \<not> node_eq tr r) rest)))
       \<and> (find_all [''th''] r = [] \<longrightarrow>
            markdown_table table =
              header_lines (cell_texts [''th'', ''td''] r) @ concat (map row_lines (r # rest)))"
proof (intro conjI impI)
  from assms(2) have first: "find_first ''tr'' table = Some r"
    by (simp add: find_first_def)
  from assms(1) first have headers: "table_headers table = cell_texts [''th'', ''td''] r"
    by (simp add: table_headers_def)
  {
    assume th: "find_all [''th''] r \<noteq> []"
    have skip: "skip_row table tr \<longleftrightarrow> node_eq tr r" for tr
      by (rule skip_row_first [OF assms(1) first th])
    have "set (find_all [''th''] r) \<subseteq> set (find_all [''th'', ''td''] r)"
      by (rule find_all_mono) simp
    with th have "find_all [''th'', ''td''] r \<noteq> []"
      by auto
    then have "cell_texts [''th'', ''td''] r \<noteq> []"
      by (simp add: cell_texts_def)
    with headers have head: "header_lines (table_headers table) =
        [row_line (cell_texts [''th'', ''td''] r),
         row_line (map (\<lambda>h. ''---'') (cell_texts [''th'', ''td''] r))]"
      by (simp add: header_lines_def)
    have "body_lines table (r # rest) = body_lines table rest"
      by (simp add: skip node_eq_refl)
    also have "\<dots> = concat (map row_lines (filter (\<lambda>tr. \<not> node_eq tr r) rest))"
      by (rule body_lines_skipping) (rule skip)
    finally show "markdown_table table =
              row_line (cell_texts [''th'', ''td''] r)
              # row_line (map (\<lambda>h. ''---'') (cell_texts [''th'', ''td''] r))
              # concat (map row_lines (filter (\<lambda>tr. \<not> node_eq tr r) rest))"
      by (simp add: markdown_table_def head assms(2))
  }
  {
    assume td: "find_all [''th''] r = []"
    have "\<not> skip_row table tr" for tr
      by (rule skip_row_never [OF assms(1) first td])
    then have "body_lines table (r # rest) = concat (map row_lines (r # rest))"
      by (rule body_lines_keeping)
    with headers show "markdown_table table =
              header_lines (cell_texts [''th'', ''td''] r) @ concat (map row_lines (r # rest))"
      by (simp add: markdown_table_def assms(2))
  }
qed

text \<open>A table whose first row has a \<open>th\<close>, and one made of \<open>td\<close> cells only.\<close>

theorem first_row_as_header_witness:
  "markdown_table headed_table = [''| Name | Born |'', ''| --- | --- |'', ''| Ada | 1815 |'']
   \<and> markdown_table plain_table = [''| Name |'', ''| --- |'', ''| Name |'', ''| Ada |'']"
proof -
  let ?h = "Tag ''tr'' [] [Tag ''th'' [] [NavigableString ''Name''], Tag ''td'' [] [NavigableString ''Born'']]"
  let ?a = "Tag ''tr'' [] [Tag ''td'' [] [NavigableString ''Ada''], Tag ''td'' [] [NavigableString ''1815'']]"
  let ?p = "Tag ''tr'' [] [Tag ''td'' [] [NavigableString ''Name'']]"
  let ?q = "Tag ''tr'' [] [Tag ''td'' [] [NavigableString ''Ada'']]"
  have no_thead: "find_first ''thead'' headed_table = None" "find_first ''thead'' plain_table = None"
    by (simp_all add: headed_table_def plain_table_def find_first_def)
  have rows: "find_all [''tr''] headed_table = [?h, ?a]" "find_all [''tr''] plain_table = [?p, ?q]"
    by (simp_all add: headed_table_def plain_table_def)
  have th: "find_all [''th''] ?h \<noteq> []" "find_all [''th''] ?p = []"
    by simp_all
  have cells: "cell_texts [''th'', ''td''] ?h = [''Name'', ''Born'']"
    "cell_texts [''th'', ''td''] ?p = [''Name'']"
    by code_simp+
  have lines: "row_lines ?a = [''| Ada | 1815 |'']" "row_lines ?p = [''| Name |'']"
    "row_lines ?q = [''| Ada |'']"
    by code_simp+
  from first_row_as_header [OF no_thead(1) rows(1)] th(1)
  have "markdown_table headed_table = [''| Name | Born |'', ''| --- | --- |'', ''| Ada | 1815 |'']"
    by (simp add: cells lines row_line_def)
  moreover from first_row_as_header [OF no_thead(2) rows(2)] th(2)
  have "markdown_table plain_table = [''| Name |'', ''| --- |'', ''| Name |'', ''| Ada |'']"
    by (simp add: cells lines row_line_def header_lines_def)
  ultimately show ?thesis
    by simp
qed

text \<open>
  Claim C3, as stated, fails when the first row holds \<open>td\<close> cells only: the row gives
  the header line and is emitted once more as the first body row.
\<close>

theorem first_row_of_td_repeated:
  "find_first ''thead'' plain_table = None
   \<and> markdown_table plain_table = [''| Name |'', ''| --- |'', ''| Name |'', ''| Ada |'']"
  by code_simp

text \<open>What title extraction returns when nothing raises.\<close>

lemma extract_title_of_title:
  "find_first ''title'' soup = Some t \<Longrightarrow> string_of t = Some s \<Longrightarrow>
   extract_title soup = Inr (strip s)"
  by (simp add: extract_title_def)

lemma extract_title_of_h1:
  "find_first ''title'' soup = None \<Longrightarrow> find_first ''h1'' soup = Some h \<Longrightarrow>
   extract_title soup = Inr (strip (get_text h))"
  by (simp add: extract_title_def)

lemma extract_title_placeholder:
  "find_first ''title'' soup = None \<Longrightarrow> find_first ''h1'' soup = None \<Longrightarrow>
   extract_title soup = Inr ''No title found''"
  by (simp add: extract_title_def)

text \<open>
  Claim C4. Title extraction returns the text of \<open>title\<close>, else of the first \<open>h1\<close>,
  else the placeholder, and never fails. On a document whose \<open>title\<close> tag is empty and
  whose body has an \<open>h1\<close>, the code raises \<open>AttributeError\<close> instead of returning the
  heading: the \<open>title\<close> tag exists, its \<open>string\<close> is \<open>None\<close>.
\<close>

theorem empty_title_raises:
  "extract_title untitled_page = Inl AttributeError"
  by code_simp

section \<open>Results about the fetcher and the non-HTML extractor\<close>

lemma py_int_Nil: "py_int [] = Inl ValueError"
  by (simp add: py_int_def)

lemma str_int_MAX: "str_int MAX_CONTENT_SIZE = ''10485760''"
  by (simp add: str_int_def MAX_CONTENT_SIZE_def)

text \<open>The status is tested first: a response with another status is a failed fetch.\<close>

lemma other_status_is_failure:
  assumes "fst (urlparse url) \<noteq> []" and "snd (urlparse url) \<noteq> []"
    and "net (fetch_request url tmo) = Inr resp"
    and "resp_status resp \<noteq> 200"
  shows "fetch_url urlparse net url tmo = Inr None"
  using assms
  by (simp add: fetch_url_def fetch_response_def except_aiohttp_def except_Exception_None_def)

text \<open>
  Claim C5. Take a fetched response, that is, one obtained for a valid URL with status
  200 (any other status is a failed fetch, \<open>None\<close>). When its \<open>Content-Length\<close> header
  is a number above 10 MiB, \<open>fetch_url\<close> returns the \<open>text/plain\<close> outcome whose
  content states the reported size and the cap of 10485760 bytes. The body plays no
  part: the outcome is the same whatever reading the body would give.
\<close>

theorem oversized_content_placeholder:
  assumes "fst (urlparse url) \<noteq> []" and "snd (urlparse url) \<noteq> []"
    and "net (fetch_request url tmo) = Inr resp"
    and "resp_status resp = 200"
    and "header_get (resp_headers resp) ''Content-Length'' = Some reported"
    and "py_int reported = Inr n"
    and "n > 10 * 1024 * 1024"
  shows "fetch_url urlparse net url tmo =
           Inr (Some (''Content too large to process (size: '' @ reported
                        @ '' bytes, max: 10485760 bytes)'', ''text/plain''))
    \<and> fetch_url urlparse (\<lambda>req. Inr (resp\<lparr>resp_text := body\<rparr>)) url tmo
        = fetch_url urlparse net url tmo"
proof -
  from assms(6) have "reported \<noteq> []"
    using py_int_Nil by auto
  with assms(5,6,7) have large: "too_large (header_get (resp_headers resp) ''Content-Length'') = Inr True"
    by (simp add: too_large_def truthy_def MAX_CONTENT_SIZE_def)
  have reply: "fetch_response r =
      Inr (Some (''Content too large to process (size: '' @ reported
                        @ '' bytes, max: 10485760 bytes)'', ''text/plain''))"
    if "resp_status r = 200" and "resp_headers r = resp_headers resp" for r
    using that large assms(5) split_chr_nonempty [of "CHR '';''"]
    by (auto simp: fetch_response_def Let_def str_int_MAX split: list.splits)
  have "fetch_response resp = Inr (Some (''Content too large to process (size: '' @ reported
                        @ '' bytes, max: 10485760 bytes)'', ''text/plain''))"
    by (rule reply) (simp_all add: assms(4))
  moreover have "fetch_response (resp\<lparr>resp_text := body\<rparr>) =
      Inr (Some (''Content too large to process (size: '' @ reported
                        @ '' bytes, max: 10485760 bytes)'', ''text/plain''))"
    by (rule reply) (simp_all add: assms(4))
  ultimately show ?thesis
    using assms(1,2,3)
    by (simp add: fetch_url_def except_aiohttp_def except_Exception_None_def)
qed

text \<open>A page announced with 20971520 bytes.\<close>

theorem oversized_content_placeholder_witness:
  "fetch_url (\<lambda>u. (''https'', ''example.org'')) (\<lambda>req. Inr big_page) ''https://example.org/big'' 30
   = Inr (Some (''Content too large to process (size: 20971520 bytes, max: 10485760 bytes)'',
                ''text/plain''))"
proof -
  have status: "resp_status big_page = 200"
    by (simp add: big_page_def)
  have header: "header_get (resp_headers big_page) ''Content-Length'' = Some ''20971520''"
    by code_simp
  have reported: "py_int ''20971520'' = Inr 20971520"
    by code_simp
  from oversized_content_placeholder
         [where urlparse = "\<lambda>u. (''https'', ''example.org'')" and url = "''https://example.org/big''"
            and net = "\<lambda>req. Inr big_page" and tmo = 30 and resp = big_page
            and reported = "''20971520''" and n = 20971520,
          OF _ _ _ status header reported]
  show ?thesis
    by simp
qed

lemma not_plain: "\<not> contains ''text/plain'' ''application/json''"
  by code_simp

lemma is_json: "contains ''application/json'' ''application/json''"
  by code_simp

text \<open>
  What the extractor does with a payload reported as \<open>application/json\<close> in the two
  cases it provides for: a \<open>JSONDecodeError\<close> gives the document titled
  \<open>Invalid JSON Document\<close> with the payload as its content, and an object with a
  \<open>title\<close> string gives the title \<open>JSON: \<close> followed by that string, with the
  pretty-printed JSON inside a \<open>json\<close> code fence.
\<close>

lemma json_decode_error_handled:
  "loads content = Inl JSONDecodeError \<Longrightarrow>
   extract_text_content loads dumps render content ''application/json'' url
   = Inr \<lparr>doc_title = ''Invalid JSON Document'', doc_url = url, doc_content = content\<rparr>"
  by (simp add: extract_text_content_def not_plain is_json)

lemma json_object_title:
  "loads content = Inr (JObj d) \<Longrightarrow> map_of d ''title'' = Some (JStr v) \<Longrightarrow>
   extract_text_content loads dumps render content ''application/json'' url
   = Inr \<lparr>doc_title = ''JSON: '' @ v, doc_url = url,
          doc_content = ''```json\<newline>'' @ dumps (JObj d) @ ''\<newline>```''\<rparr>"
  by (simp add: extract_text_content_def not_plain is_json json_title_def)

lemma json_example_document:
  \<open>extract_text_content example_loads example_dumps (\<lambda>v. []) ''{"title":"X"}'' ''application/json''
       ''https://example.org/a.json''
   = Inr \<lparr>doc_title = ''JSON: X'', doc_url = ''https://example.org/a.json'',
          doc_content = ''```json\<newline>{\<newline>  "title": "X"\<newline>}\<newline>```''\<rparr>\<close>
  by (simp add: extract_text_content_def not_plain is_json json_title_def example_loads_def
      example_dumps_def)

text \<open>
  Claim C7. A payload reported as \<open>application/json\<close> that fails to parse is turned
  into a plain-text document and the error never reaches the caller. The code catches
  \<open>JSONDecodeError\<close> only: whenever \<open>json.loads\<close> raises anything else, that exception
  leaves \<open>extract_text_content\<close>.
\<close>

theorem json_error_propagates:
  assumes "loads content = Inl e" and "e \<noteq> JSONDecodeError"
  shows "extract_text_content loads dumps render content ''application/json'' url = Inl e"
  using assms by (simp add: extract_text_content_def not_plain is_json)

text \<open>The deeply nested payload and the long number.\<close>

theorem json_error_propagates_witness:
  "extract_text_content limited_loads example_dumps (\<lambda>v. []) nested_payload ''application/json''
       ''https://example.org/a.json'' = Inl RecursionError
   \<and> extract_text_content limited_loads example_dumps (\<lambda>v. []) long_number ''application/json''
       ''https://example.org/a.json'' = Inl ValueError"
proof -
  have nested: "limited_loads nested_payload = Inl RecursionError"
    by (simp add: limited_loads_def)
  have differ: "long_number \<noteq> nested_payload"
    by (simp add: long_number_def nested_payload_def)
  then have long: "limited_loads long_number = Inl ValueError"
    by (simp add: limited_loads_def)
  from json_error_propagates
         [where loads = limited_loads and content = nested_payload and e = RecursionError
            and dumps = example_dumps and render = "\<lambda>v. []" and url = "''https://example.org/a.json''"]
       json_error_propagates
         [where loads = limited_loads and content = long_number and e = ValueError
            and dumps = example_dumps and render = "\<lambda>v. []" and url = "''https://example.org/a.json''"]
       nested long
  show ?thesis
    by simp
qed

end
